theory Spec2Isabelle
  imports Complex_Main "HOL-Library.Word" "HOL-Library.AList"
begin

unbundle bit_operations_syntax

chapter \<open>The program\<close>

section \<open>Numeric conventions\<close>

text \<open>
  Unsigned 64-bit and 32-bit quantities (tickets, symbol ids) are machine words: their
  arithmetic wraps, as the C++ arithmetic does. The timestamps of the global clock are
  64-bit words read as signed numbers; the clock only compares them.

  Prices and money are \<open>int64_t\<close> in the source. Signed overflow is undefined behaviour
  in C++, so these are modelled as mathematical integers: the model describes the runs in
  which no signed operation leaves the 64-bit range. \<open>double\<close> values (volumes, prices
  at the public boundary) are modelled as exact rationals, so the rounding of the
  floating-point unit is not part of the model.
\<close>

type_synonym u32 = "32 word"
type_synonym u64 = "64 word"
type_synonym i64 = "64 word"

text \<open>\<open>std::numeric_limits<int64_t>::max()\<close>.\<close>

definition INT64_MAX :: i64 where
  "INT64_MAX = 0x7FFFFFFFFFFFFFFF"

text \<open>\<open>std::min\<close> on \<open>int64_t\<close> words: the second argument is returned only when it
  is strictly smaller (signed comparison).\<close>

definition std_min :: "i64 \<Rightarrow> i64 \<Rightarrow> i64" where
  "std_min a b = (if b <s a then b else a)"


section \<open>FixedPoint (util/fixed\_point.hpp)\<close>






section \<open>GlobalClock (core/global\_clock.hpp)\<close>

text \<open>
  \<open>symbol_timestamps_\<close> is an \<open>unordered_map<uint32_t, int64_t>\<close>, kept here as an
  association list with one entry per key. The loops over it take a minimum, so the
  iteration order does not matter.
\<close>

record GlobalClock =
  symbol_timestamps :: "(u32 \<times> i64) list"
  global_time :: i64

definition GlobalClock_new :: GlobalClock where
  "GlobalClock_new = \<lparr>symbol_timestamps = [], global_time = 0\<rparr>"

definition recalculate_global_time_locked :: "GlobalClock \<Rightarrow> GlobalClock" where
  "recalculate_global_time_locked c =
     (if symbol_timestamps c = [] then c\<lparr>global_time := 0\<rparr>
      else c\<lparr>global_time :=
             fold (\<lambda>(_, timestamp) min_time. std_min min_time timestamp)
                  (symbol_timestamps c) INT64_MAX\<rparr>)"

definition update_symbol :: "GlobalClock \<Rightarrow> u32 \<Rightarrow> i64 \<Rightarrow> GlobalClock" where
  "update_symbol c symbol_id timestamp =
     recalculate_global_time_locked
       (c\<lparr>symbol_timestamps := AList.update symbol_id timestamp (symbol_timestamps c)\<rparr>)"

definition current_time :: "GlobalClock \<Rightarrow> i64" where
  "current_time c = global_time c"

definition can_advance :: "GlobalClock \<Rightarrow> u32 \<Rightarrow> i64 \<Rightarrow> bool" where
  "can_advance c symbol_id target_timestamp =
     (if length (symbol_timestamps c) \<le> 1 then True
      else
        let min_time_excluding_self =
              fold (\<lambda>(other_id, other_time) m.
                      if other_id \<noteq> symbol_id then std_min m other_time else m)
                   (symbol_timestamps c) INT64_MAX
        in target_timestamp \<le>s min_time_excluding_self)"

text \<open>
  The specification's reading of \<open>can_advance\<close>: the target does not exceed the timestamp
  of any tracked symbol other than the asking one, that is, it is at most their minimum.
\<close>

definition target_within_others :: "GlobalClock \<Rightarrow> u32 \<Rightarrow> i64 \<Rightarrow> bool" where
  "target_within_others c symbol_id target_timestamp =
     (\<forall>(other_id, other_time) \<in> set (symbol_timestamps c).
        other_id \<noteq> symbol_id \<longrightarrow> target_timestamp \<le>s other_time)"

text \<open>Scenario S4 of the specification, and a clock tracking one symbol only.\<close>

definition clock_S4 :: GlobalClock where
  "clock_S4 = update_symbol (update_symbol GlobalClock_new 1 1000000) 2 999000"

definition clock_single :: GlobalClock where
  "clock_single = update_symbol GlobalClock_new 1 5"


section \<open>Costs engine (costs/costs\_engine.hpp)\<close>

datatype ENUM_POSITION_TYPE = POSITION_TYPE_BUY | POSITION_TYPE_SELL

datatype ENUM_ORDER_TYPE =
    ORDER_TYPE_BUY | ORDER_TYPE_SELL
  | ORDER_TYPE_BUY_LIMIT | ORDER_TYPE_SELL_LIMIT
  | ORDER_TYPE_BUY_STOP | ORDER_TYPE_SELL_STOP
  | ORDER_TYPE_BUY_STOP_LIMIT | ORDER_TYPE_SELL_STOP_LIMIT

text \<open>
  A record field carries a prefix for its struct (\<open>tick_\<close>, \<open>po_\<close> for
  \<open>PendingOrder\<close>, \<open>pos_\<close> for \<open>Position\<close>), since the structs share
  field names with each other and with the parameters of the functions.
\<close>

record Tick =
  tick_timestamp_us :: int
  tick_bid :: int
  tick_ask :: int
  tick_bid_volume :: int
  tick_ask_volume :: int
  tick_symbol_id :: u32
  tick_spread_points :: int

record ExecutionResult =
  executed :: bool
  fill_price :: int
  slippage :: int
  commission :: int
  spread_cost :: int

text \<open>The default constructor of \<open>ExecutionResult\<close>.\<close>

definition ExecutionResult_new :: ExecutionResult where
  "ExecutionResult_new =
     \<lparr>executed = False, fill_price = 0, slippage = 0, commission = 0, spread_cost = 0\<rparr>"

record PendingOrder =
  po_ticket :: u64
  po_symbol_id :: u32
  po_type :: ENUM_ORDER_TYPE
  po_volume :: rat
  po_price :: int
  po_sl :: int
  po_tp :: int
  po_timestamp_us :: int

record Position =
  pos_ticket :: u64
  pos_symbol_id :: u32
  pos_type :: ENUM_POSITION_TYPE
  pos_volume :: rat
  pos_open_price :: int
  pos_sl :: int
  pos_tp :: int
  pos_open_time_us :: int
  pos_commission :: int
  pos_swap :: int

text \<open>
  The engine owns one model of each family behind an interface and a random number
  generator that the slippage and spread models advance. A model is the function its
  \<open>calculate\<close> method computes; the generator state \<open>'rng\<close> and the symbol
  information \<open>'info\<close>, which the engine only hands on to the models, stay abstract.
\<close>

record ('info, 'rng) CostsEngine =
  slippage_model ::
    "ENUM_POSITION_TYPE \<Rightarrow> rat \<Rightarrow> Tick \<Rightarrow> 'info \<Rightarrow> 'rng \<Rightarrow> int \<times> 'rng"
  commission_model :: "ENUM_POSITION_TYPE \<Rightarrow> rat \<Rightarrow> int \<Rightarrow> 'info \<Rightarrow> int"
  spread_model :: "Tick \<Rightarrow> 'info \<Rightarrow> int \<Rightarrow> 'rng \<Rightarrow> int \<times> 'rng"
  rng :: 'rng

text \<open>The part of \<open>evaluate_order\<close> and \<open>evaluate_position\<close> after the trigger test:
  slippage, spread, fill price and commission, in the order of the source.\<close>

definition fill :: "('info, 'rng) CostsEngine \<Rightarrow> ENUM_POSITION_TYPE \<Rightarrow> rat \<Rightarrow> int \<Rightarrow> Tick
    \<Rightarrow> 'info \<Rightarrow> ExecutionResult \<times> ('info, 'rng) CostsEngine" where
  "fill e side vol trigger_price tick info =
     (let (slip, rng1) = slippage_model e side vol tick info (rng e);
          (spread, rng2) = spread_model e tick info (tick_timestamp_us tick) rng1;
          fp = (if side = POSITION_TYPE_BUY then trigger_price + slip
                else trigger_price - slip);
          comm = commission_model e side vol fp info
      in (\<lparr>executed = True, fill_price = fp, slippage = slip,
            commission = comm, spread_cost = spread\<rparr>,
          e\<lparr>rng := rng2\<rparr>))"

definition is_buy :: "ENUM_ORDER_TYPE \<Rightarrow> bool" where
  "is_buy t = (t = ORDER_TYPE_BUY \<or> t = ORDER_TYPE_BUY_LIMIT \<or> t = ORDER_TYPE_BUY_STOP
               \<or> t = ORDER_TYPE_BUY_STOP_LIMIT)"

text \<open>The \<open>switch\<close> of \<open>evaluate_order\<close>: whether the order triggers, and at which
  price.\<close>

definition order_trigger :: "PendingOrder \<Rightarrow> Tick \<Rightarrow> bool \<times> int" where
  "order_trigger order tick =
     (case po_type order of
        ORDER_TYPE_BUY \<Rightarrow> (True, tick_ask tick)
      | ORDER_TYPE_SELL \<Rightarrow> (True, tick_bid tick)
      | ORDER_TYPE_BUY_LIMIT \<Rightarrow>
          (if tick_ask tick \<le> po_price order then (True, po_price order) else (False, 0))
      | ORDER_TYPE_SELL_LIMIT \<Rightarrow>
          (if tick_bid tick \<ge> po_price order then (True, po_price order) else (False, 0))
      | ORDER_TYPE_BUY_STOP \<Rightarrow>
          (if tick_ask tick \<ge> po_price order then (True, tick_ask tick) else (False, 0))
      | ORDER_TYPE_SELL_STOP \<Rightarrow>
          (if tick_bid tick \<le> po_price order then (True, tick_bid tick) else (False, 0))
      | ORDER_TYPE_BUY_STOP_LIMIT \<Rightarrow>
          (if tick_ask tick \<ge> po_price order then (True, min (tick_ask tick) (po_price order))
           else (False, 0))
      | ORDER_TYPE_SELL_STOP_LIMIT \<Rightarrow>
          (if tick_bid tick \<le> po_price order then (True, max (tick_bid tick) (po_price order))
           else (False, 0)))"

definition evaluate_order :: "('info, 'rng) CostsEngine \<Rightarrow> PendingOrder \<Rightarrow> Tick \<Rightarrow> 'info
    \<Rightarrow> ExecutionResult \<times> ('info, 'rng) CostsEngine" where
  "evaluate_order e order tick info =
     (let (triggers, trigger_price) = order_trigger order tick
      in if \<not> triggers then (ExecutionResult_new, e)
         else
           let pos_type = (if is_buy (po_type order) then POSITION_TYPE_BUY
                           else POSITION_TYPE_SELL)
           in fill e pos_type (po_volume order) trigger_price tick info)"

text \<open>The SL/TP test of \<open>evaluate_position\<close>.\<close>

definition position_trigger :: "Position \<Rightarrow> Tick \<Rightarrow> bool \<times> int" where
  "position_trigger position tick =
     (if pos_type position = POSITION_TYPE_BUY then
        if pos_sl position > 0 \<and> tick_bid tick \<le> pos_sl position
          then (True, min (tick_bid tick) (pos_sl position))
        else if pos_tp position > 0 \<and> tick_bid tick \<ge> pos_tp position
          then (True, max (tick_bid tick) (pos_tp position))
        else (False, 0)
      else
        if pos_sl position > 0 \<and> tick_ask tick \<ge> pos_sl position
          then (True, max (tick_ask tick) (pos_sl position))
        else if pos_tp position > 0 \<and> tick_ask tick \<le> pos_tp position
          then (True, min (tick_ask tick) (pos_tp position))
        else (False, 0))"

definition evaluate_position :: "('info, 'rng) CostsEngine \<Rightarrow> Position \<Rightarrow> Tick \<Rightarrow> 'info
    \<Rightarrow> ExecutionResult \<times> ('info, 'rng) CostsEngine" where
  "evaluate_position e position tick info =
     (let close_type = (if pos_type position = POSITION_TYPE_BUY then POSITION_TYPE_SELL
                        else POSITION_TYPE_BUY);
          (triggers, trigger_price) = position_trigger position tick
      in if \<not> triggers then (ExecutionResult_new, e)
         else fill e close_type (pos_volume position) trigger_price tick info)"

text \<open>\<open>ZeroSlippage\<close> and \<open>FixedSlippage\<close> (costs/slippage\_model.hpp); \<open>point\<close>
  stands for \<open>info.Point()\<close>. A cast from \<open>double\<close> to \<open>int64_t\<close> truncates.\<close>

definition trunc :: "rat \<Rightarrow> int" where
  "trunc x = (if x \<ge> 0 then \<lfloor>x\<rfloor> else \<lceil>x\<rceil>)"

definition ZeroSlippage ::
    "ENUM_POSITION_TYPE \<Rightarrow> rat \<Rightarrow> Tick \<Rightarrow> 'info \<Rightarrow> 'rng \<Rightarrow> int \<times> 'rng" where
  "ZeroSlippage side vol tick info g = (0, g)"

definition FixedSlippage :: "int \<Rightarrow> ('info \<Rightarrow> rat)
    \<Rightarrow> ENUM_POSITION_TYPE \<Rightarrow> rat \<Rightarrow> Tick \<Rightarrow> 'info \<Rightarrow> 'rng \<Rightarrow> int \<times> 'rng" where
  "FixedSlippage slippage_points point side vol tick info g =
     (trunc (of_int slippage_points * point info), g)"

text \<open>\<open>ZeroCommission\<close> and \<open>FixedSpread\<close> stand for the other two families in the
  scenarios below.\<close>

definition ZeroCommission :: "ENUM_POSITION_TYPE \<Rightarrow> rat \<Rightarrow> int \<Rightarrow> 'info \<Rightarrow> int" where
  "ZeroCommission side vol fp info = 0"

definition PassSpread :: "Tick \<Rightarrow> 'info \<Rightarrow> int \<Rightarrow> 'rng \<Rightarrow> int \<times> 'rng" where
  "PassSpread tick info ts g = (tick_ask tick - tick_bid tick, g)"

text \<open>Scenario S2: a long position opened at 1.10000 with stop loss 1.09500 (five
  digits), and a tick that gaps through the stop; the engine slips by two points of
  size 1.\<close>

definition engine_S2 :: "(nat, nat) CostsEngine" where
  "engine_S2 = \<lparr>slippage_model = FixedSlippage 2 (\<lambda>_. 1), commission_model = ZeroCommission,
                 spread_model = PassSpread, rng = 0\<rparr>"

definition position_S2 :: Position where
  "position_S2 = \<lparr>pos_ticket = 1000, pos_symbol_id = 1, pos_type = POSITION_TYPE_BUY,
                   pos_volume = 1, pos_open_price = 110000, pos_sl = 109500, pos_tp = 0,
                   pos_open_time_us = 0, pos_commission = 0, pos_swap = 0\<rparr>"

definition tick_S2 :: Tick where
  "tick_S2 = \<lparr>tick_timestamp_us = 1000000, tick_bid = 109000, tick_ask = 109015,
               tick_bid_volume = 0, tick_ask_volume = 0, tick_symbol_id = 1,
               tick_spread_points = 15\<rparr>"

definition order_buy_stop :: PendingOrder where
  "order_buy_stop = \<lparr>po_ticket = 1001, po_symbol_id = 1, po_type = ORDER_TYPE_BUY_STOP,
                      po_volume = 1, po_price = 109015, po_sl = 0, po_tp = 0,
                      po_timestamp_us = 0\<rparr>"

definition order_sell_limit :: PendingOrder where
  "order_sell_limit = \<lparr>po_ticket = 1002, po_symbol_id = 1,
                        po_type = ORDER_TYPE_SELL_LIMIT, po_volume = 1, po_price = 109000,
                        po_sl = 0, po_tp = 0, po_timestamp_us = 0\<rparr>"

section \<open>CurrencyConverter (util/currency\_converter.hpp)\<close>
























section \<open>The ledger's value classes (trading/*.hpp)\<close>

text \<open>
  The classes of the ledger keep prices and money as \<open>int64_t\<close> and expose them as
  \<open>double\<close>. A record below holds the members that the modelled methods read or
  write; a member no modelled method touches (descriptions, session statistics, the
  stored state for \<open>CheckState\<close>) is left out. Field prefixes: \<open>si_\<close> SymbolInfo,
  \<open>pi_\<close> PositionInfo, \<open>oi_\<close> OrderInfo, \<open>ho_\<close> HistoryOrderInfo, \<open>di_\<close>
  DealInfo, \<open>acc_\<close> AccountInfo, \<open>rq_\<close>, \<open>rs_\<close>, \<open>ck_\<close> the request, result and
  check structs, \<open>ct_\<close> CTrade. The member \<open>time_update_\<close> of a position is
  the field \<open>pi_timeupdate\<close> (a record reserves the name \<open>pi_time_update\<close>).
\<close>

text \<open>\<open>std::pow(10.0, digits)\<close>.\<close>

definition pow10 :: "int \<Rightarrow> rat" where
  "pow10 d = (if d \<ge> 0 then 10 ^ nat d else 1 / 10 ^ nat (- d))"

text \<open>\<open>static_cast<int64_t>(price * std::pow(10.0, digits) + 0.5)\<close>, the conversion
  every price setter uses.\<close>

definition to_fixed :: "rat \<Rightarrow> int \<Rightarrow> int" where
  "to_fixed price digits = trunc (price * pow10 digits + 1 / 2)"

datatype ENUM_ORDER_STATE =
    ORDER_STATE_STARTED | ORDER_STATE_PLACED | ORDER_STATE_CANCELED | ORDER_STATE_PARTIAL
  | ORDER_STATE_FILLED | ORDER_STATE_REJECTED | ORDER_STATE_EXPIRED
  | ORDER_STATE_REQUEST_ADD | ORDER_STATE_REQUEST_MODIFY | ORDER_STATE_REQUEST_CANCEL

datatype ENUM_ORDER_TYPE_FILLING = ORDER_FILLING_FOK | ORDER_FILLING_IOC | ORDER_FILLING_RETURN

datatype ENUM_ORDER_TYPE_TIME =
  ORDER_TIME_GTC | ORDER_TIME_DAY | ORDER_TIME_SPECIFIED | ORDER_TIME_SPECIFIED_DAY

datatype ENUM_DEAL_TYPE = DEAL_TYPE_BUY | DEAL_TYPE_SELL

datatype ENUM_DEAL_ENTRY = DEAL_ENTRY_IN | DEAL_ENTRY_OUT | DEAL_ENTRY_INOUT | DEAL_ENTRY_OUT_BY

subsection \<open>SymbolInfo\<close>

record SymbolInfo =
  si_name :: string
  si_symbol_id :: u32
  si_bid :: int
  si_bid_high :: int
  si_bid_low :: int
  si_ask :: int
  si_ask_high :: int
  si_ask_low :: int
  si_time :: int
  si_digits :: int
  si_point :: rat
  si_spread :: int
  si_contract_size :: rat
  si_volume_min :: rat
  si_volume_max :: rat
  si_stops_level :: int
  si_currency_profit :: string

definition Bid :: "SymbolInfo \<Rightarrow> rat" where
  "Bid s = of_int (si_bid s) / pow10 (si_digits s)"

definition Ask :: "SymbolInfo \<Rightarrow> rat" where
  "Ask s = of_int (si_ask s) / pow10 (si_digits s)"

definition SymbolInfo_UpdatePrice :: "SymbolInfo \<Rightarrow> rat \<Rightarrow> rat \<Rightarrow> int \<Rightarrow> SymbolInfo" where
  "SymbolInfo_UpdatePrice s b a timestamp =
     (let multiplier = pow10 (si_digits s);
          s = s\<lparr>si_bid := trunc (b * multiplier + 1 / 2)\<rparr>;
          s = s\<lparr>si_ask := trunc (a * multiplier + 1 / 2)\<rparr>;
          s = s\<lparr>si_spread := trunc (of_int (si_ask s - si_bid s) / si_point s)\<rparr>;
          s = s\<lparr>si_time := timestamp\<rparr>;
          s = (if si_bid s > si_bid_high s \<or> si_bid_high s = 0
               then s\<lparr>si_bid_high := si_bid s\<rparr> else s);
          s = (if si_bid s < si_bid_low s \<or> si_bid_low s = 0
               then s\<lparr>si_bid_low := si_bid s\<rparr> else s);
          s = (if si_ask s > si_ask_high s \<or> si_ask_high s = 0
               then s\<lparr>si_ask_high := si_ask s\<rparr> else s);
          s = (if si_ask s < si_ask_low s \<or> si_ask_low s = 0
               then s\<lparr>si_ask_low := si_ask s\<rparr> else s)
      in s)"

subsection \<open>PositionInfo\<close>

record PositionInfo =
  pi_ticket :: u64
  pi_identifier :: u64
  pi_symbol :: string
  pi_magic :: u32
  pi_type :: ENUM_POSITION_TYPE
  pi_volume :: rat
  pi_price_open :: int
  pi_price_current :: int
  pi_stop_loss :: int
  pi_take_profit :: int
  pi_profit :: int
  pi_commission :: int
  pi_swap :: int
  pi_time :: int
  pi_time_msc :: int
  pi_timeupdate :: int
  pi_timeupdate_msc :: int
  pi_comment :: string
  pi_trailing_distance :: int
  pi_trailing_step :: int
  pi_trailing_trigger :: int
  pi_digits :: int
  pi_point :: rat
  pi_contract_size :: rat

definition PositionInfo_new :: PositionInfo where
  "PositionInfo_new =
     \<lparr>pi_ticket = 0, pi_identifier = 0, pi_symbol = '''', pi_magic = 0,
      pi_type = POSITION_TYPE_BUY, pi_volume = 0, pi_price_open = 0, pi_price_current = 0,
      pi_stop_loss = 0, pi_take_profit = 0, pi_profit = 0, pi_commission = 0, pi_swap = 0,
      pi_time = 0, pi_time_msc = 0, pi_timeupdate = 0, pi_timeupdate_msc = 0,
      pi_comment = '''', pi_trailing_distance = 0, pi_trailing_step = 0,
      pi_trailing_trigger = 0, pi_digits = 5, pi_point = 1 / 100000,
      pi_contract_size = 100000\<rparr>"

definition PriceOpen :: "PositionInfo \<Rightarrow> rat" where
  "PriceOpen p = of_int (pi_price_open p) / pow10 (pi_digits p)"

definition PriceCurrent :: "PositionInfo \<Rightarrow> rat" where
  "PriceCurrent p = of_int (pi_price_current p) / pow10 (pi_digits p)"

definition Profit :: "PositionInfo \<Rightarrow> rat" where
  "Profit p = of_int (pi_profit p) / 1000000"

definition Commission :: "PositionInfo \<Rightarrow> rat" where
  "Commission p = of_int (pi_commission p) / 1000000"

definition Swap :: "PositionInfo \<Rightarrow> rat" where
  "Swap p = of_int (pi_swap p) / 1000000"

definition SetTime :: "PositionInfo \<Rightarrow> int \<Rightarrow> int \<Rightarrow> PositionInfo" where
  "SetTime p time_sec time_msc =
     p\<lparr>pi_time := time_sec,
       pi_time_msc := (if time_msc > 0 then time_msc else time_sec * 1000)\<rparr>"

definition SetTimeUpdate :: "PositionInfo \<Rightarrow> int \<Rightarrow> int \<Rightarrow> PositionInfo" where
  "SetTimeUpdate p time_sec time_msc =
     p\<lparr>pi_timeupdate := time_sec,
       pi_timeupdate_msc := (if time_msc > 0 then time_msc else time_sec * 1000)\<rparr>"

definition SetPriceOpen :: "PositionInfo \<Rightarrow> rat \<Rightarrow> PositionInfo" where
  "SetPriceOpen p price = p\<lparr>pi_price_open := to_fixed price (pi_digits p)\<rparr>"

definition SetPriceCurrent :: "PositionInfo \<Rightarrow> rat \<Rightarrow> PositionInfo" where
  "SetPriceCurrent p price = p\<lparr>pi_price_current := to_fixed price (pi_digits p)\<rparr>"

definition SetStopLoss :: "PositionInfo \<Rightarrow> rat \<Rightarrow> PositionInfo" where
  "SetStopLoss p sl =
     (let p = p\<lparr>pi_stop_loss := to_fixed sl (pi_digits p)\<rparr>
      in SetTimeUpdate p (if pi_timeupdate p > 0 then pi_timeupdate p else pi_time p) 0)"

definition SetTakeProfit :: "PositionInfo \<Rightarrow> rat \<Rightarrow> PositionInfo" where
  "SetTakeProfit p tp =
     (let p = p\<lparr>pi_take_profit := to_fixed tp (pi_digits p)\<rparr>
      in SetTimeUpdate p (if pi_timeupdate p > 0 then pi_timeupdate p else pi_time p) 0)"

definition SetTrailingTrigger :: "PositionInfo \<Rightarrow> rat \<Rightarrow> PositionInfo" where
  "SetTrailingTrigger p trigger = p\<lparr>pi_trailing_trigger := to_fixed trigger (pi_digits p)\<rparr>"

definition RecalculateProfit :: "PositionInfo \<Rightarrow> PositionInfo" where
  "RecalculateProfit p =
     (let price_diff = (if pi_type p = POSITION_TYPE_BUY
                        then pi_price_current p - pi_price_open p
                        else pi_price_open p - pi_price_current p);
          price_diff_double = of_int price_diff / pow10 (pi_digits p)
      in p\<lparr>pi_profit :=
             trunc (price_diff_double * pi_volume p * pi_contract_size p * 1000000)\<rparr>)"

definition UpdatePrice :: "PositionInfo \<Rightarrow> rat \<Rightarrow> PositionInfo" where
  "UpdatePrice p new_price =
     (let p = SetPriceCurrent p new_price;
          p = RecalculateProfit p
      in SetTimeUpdate p (pi_timeupdate p + 1) 0)"

subsection \<open>OrderInfo and HistoryOrderInfo\<close>

record OrderInfo =
  oi_ticket :: u64
  oi_symbol :: string
  oi_magic :: u32
  oi_position_id :: u64
  oi_order_type :: ENUM_ORDER_TYPE
  oi_state :: ENUM_ORDER_STATE
  oi_volume_initial :: rat
  oi_volume_current :: rat
  oi_price_open :: int
  oi_price_current :: int
  oi_price_stoplimit :: int
  oi_stop_loss :: int
  oi_take_profit :: int
  oi_time_setup :: int
  oi_time_setup_msc :: int
  oi_time_expiration :: int
  oi_time_done :: int
  oi_time_done_msc :: int
  oi_type_filling :: ENUM_ORDER_TYPE_FILLING
  oi_type_time :: ENUM_ORDER_TYPE_TIME
  oi_comment :: string
  oi_digits :: int

definition OrderInfo_new :: OrderInfo where
  "OrderInfo_new =
     \<lparr>oi_ticket = 0, oi_symbol = '''', oi_magic = 0, oi_position_id = 0,
      oi_order_type = ORDER_TYPE_BUY, oi_state = ORDER_STATE_PLACED,
      oi_volume_initial = 0, oi_volume_current = 0, oi_price_open = 0, oi_price_current = 0,
      oi_price_stoplimit = 0, oi_stop_loss = 0, oi_take_profit = 0, oi_time_setup = 0,
      oi_time_setup_msc = 0, oi_time_expiration = 0, oi_time_done = 0, oi_time_done_msc = 0,
      oi_type_filling = ORDER_FILLING_FOK, oi_type_time = ORDER_TIME_GTC, oi_comment = '''',
      oi_digits = 5\<rparr>"

definition OrderInfo_SetTimeSetup :: "OrderInfo \<Rightarrow> int \<Rightarrow> int \<Rightarrow> OrderInfo" where
  "OrderInfo_SetTimeSetup o' time_sec time_msc =
     o'\<lparr>oi_time_setup := time_sec,
        oi_time_setup_msc := (if time_msc > 0 then time_msc else time_sec * 1000)\<rparr>"

definition OrderInfo_SetTimeDone :: "OrderInfo \<Rightarrow> int \<Rightarrow> int \<Rightarrow> OrderInfo" where
  "OrderInfo_SetTimeDone o' time_sec time_msc =
     o'\<lparr>oi_time_done := time_sec,
        oi_time_done_msc := (if time_msc > 0 then time_msc else time_sec * 1000)\<rparr>"

definition OrderInfo_SetPriceOpen :: "OrderInfo \<Rightarrow> rat \<Rightarrow> OrderInfo" where
  "OrderInfo_SetPriceOpen o' price = o'\<lparr>oi_price_open := to_fixed price (oi_digits o')\<rparr>"

definition OrderInfo_SetPriceStopLimit :: "OrderInfo \<Rightarrow> rat \<Rightarrow> OrderInfo" where
  "OrderInfo_SetPriceStopLimit o' price =
     o'\<lparr>oi_price_stoplimit := to_fixed price (oi_digits o')\<rparr>"

definition OrderInfo_SetStopLoss :: "OrderInfo \<Rightarrow> rat \<Rightarrow> OrderInfo" where
  "OrderInfo_SetStopLoss o' sl = o'\<lparr>oi_stop_loss := to_fixed sl (oi_digits o')\<rparr>"

definition OrderInfo_SetTakeProfit :: "OrderInfo \<Rightarrow> rat \<Rightarrow> OrderInfo" where
  "OrderInfo_SetTakeProfit o' tp = o'\<lparr>oi_take_profit := to_fixed tp (oi_digits o')\<rparr>"

text \<open>The constructor of \<open>HistoryOrderInfo\<close> from an order copies the order and zeroes
  the prices, with five digits; the history entry is kept as an order record.\<close>

definition HistoryOrderInfo :: "OrderInfo \<Rightarrow> OrderInfo" where
  "HistoryOrderInfo order =
     order\<lparr>oi_digits := 5, oi_price_open := 0, oi_price_current := 0,
           oi_price_stoplimit := 0, oi_stop_loss := 0, oi_take_profit := 0\<rparr>"

subsection \<open>DealInfo\<close>

record DealInfo =
  di_ticket :: u64
  di_order :: u64
  di_position_id :: u64
  di_symbol :: string
  di_magic :: u32
  di_type :: ENUM_DEAL_TYPE
  di_entry :: ENUM_DEAL_ENTRY
  di_volume :: rat
  di_price :: int
  di_profit :: int
  di_commission :: int
  di_swap :: int
  di_time :: int
  di_time_msc :: int
  di_comment :: string
  di_digits :: int
  di_entry_price :: int
  di_exit_price :: int
  di_entry_time :: int
  di_exit_time :: int

definition DealInfo_new :: DealInfo where
  "DealInfo_new =
     \<lparr>di_ticket = 0, di_order = 0, di_position_id = 0, di_symbol = '''', di_magic = 0,
      di_type = DEAL_TYPE_BUY, di_entry = DEAL_ENTRY_IN, di_volume = 0, di_price = 0,
      di_profit = 0, di_commission = 0, di_swap = 0, di_time = 0, di_time_msc = 0,
      di_comment = '''', di_digits = 5, di_entry_price = 0, di_exit_price = 0,
      di_entry_time = 0, di_exit_time = 0\<rparr>"

subsection \<open>AccountInfo\<close>

record AccountInfo =
  acc_balance :: int
  acc_equity :: int
  acc_margin :: int
  acc_margin_free :: int
  acc_profit :: int
  acc_credit :: int
  acc_margin_level :: rat
  acc_currency :: string
  acc_leverage :: int
  acc_total_profit :: int
  acc_total_loss :: int
  acc_total_commission :: int
  acc_total_swap :: int
  acc_total_trades :: u32
  acc_winning_trades :: u32
  acc_losing_trades :: u32
  acc_daily_trades :: u32
  acc_daily_profit :: int
  acc_daily_high_equity :: int
  acc_daily_low_equity :: int

definition AccountInfo_new :: "rat \<Rightarrow> string \<Rightarrow> int \<Rightarrow> AccountInfo" where
  "AccountInfo_new initial_balance currency leverage =
     \<lparr>acc_balance = trunc (initial_balance * 1000000),
      acc_equity = trunc (initial_balance * 1000000),
      acc_margin = 0,
      acc_margin_free = trunc (initial_balance * 1000000),
      acc_profit = 0, acc_credit = 0, acc_margin_level = 0,
      acc_currency = currency, acc_leverage = leverage,
      acc_total_profit = 0, acc_total_loss = 0, acc_total_commission = 0,
      acc_total_swap = 0, acc_total_trades = 0, acc_winning_trades = 0,
      acc_losing_trades = 0, acc_daily_trades = 0, acc_daily_profit = 0,
      acc_daily_high_equity = trunc (initial_balance * 1000000),
      acc_daily_low_equity = trunc (initial_balance * 1000000)\<rparr>"

definition Balance :: "AccountInfo \<Rightarrow> rat" where
  "Balance a = of_int (acc_balance a) / 1000000"

definition Equity :: "AccountInfo \<Rightarrow> rat" where
  "Equity a = of_int (acc_equity a) / 1000000"

definition Margin :: "AccountInfo \<Rightarrow> rat" where
  "Margin a = of_int (acc_margin a) / 1000000"

definition FreeMargin :: "AccountInfo \<Rightarrow> rat" where
  "FreeMargin a = of_int (acc_margin_free a) / 1000000"

definition AccountInfo_UpdateEquity :: "AccountInfo \<Rightarrow> int \<Rightarrow> AccountInfo" where
  "AccountInfo_UpdateEquity a total_unrealized_pnl =
     (let a = a\<lparr>acc_profit := total_unrealized_pnl\<rparr>;
          a = a\<lparr>acc_equity := acc_balance a + total_unrealized_pnl\<rparr>;
          a = (if acc_margin a > 0
               then a\<lparr>acc_margin_level :=
                        (of_int (acc_equity a) / of_int (acc_margin a)) * 100\<rparr>
               else a\<lparr>acc_margin_level := 0\<rparr>);
          a = a\<lparr>acc_margin_free := acc_equity a - acc_margin a\<rparr>;
          a = (if acc_equity a > acc_daily_high_equity a
               then a\<lparr>acc_daily_high_equity := acc_equity a\<rparr> else a);
          a = (if acc_equity a < acc_daily_low_equity a \<or> acc_daily_low_equity a = 0
               then a\<lparr>acc_daily_low_equity := acc_equity a\<rparr> else a)
      in a)"

definition AddMargin :: "AccountInfo \<Rightarrow> int \<Rightarrow> AccountInfo" where
  "AddMargin a amount =
     (let a = a\<lparr>acc_margin := acc_margin a + amount\<rparr>
      in AccountInfo_UpdateEquity a (acc_profit a))"

definition SubtractMargin :: "AccountInfo \<Rightarrow> int \<Rightarrow> AccountInfo" where
  "SubtractMargin a amount =
     (let a = a\<lparr>acc_margin := acc_margin a - amount\<rparr>
      in AccountInfo_UpdateEquity a (acc_profit a))"

definition ApplyRealizedPnL :: "AccountInfo \<Rightarrow> int \<Rightarrow> int \<Rightarrow> int \<Rightarrow> AccountInfo" where
  "ApplyRealizedPnL a realized_pnl comm swp =
     (let net_pnl = realized_pnl - comm + swp;
          a = a\<lparr>acc_balance := acc_balance a + net_pnl,
                acc_total_commission := acc_total_commission a + comm,
                acc_total_swap := acc_total_swap a + swp,
                acc_total_trades := acc_total_trades a + 1\<rparr>;
          a = (if realized_pnl > 0
               then a\<lparr>acc_total_profit := acc_total_profit a + realized_pnl,
                      acc_winning_trades := acc_winning_trades a + 1\<rparr>
               else if realized_pnl < 0
               then a\<lparr>acc_total_loss := acc_total_loss a + (- realized_pnl),
                      acc_losing_trades := acc_losing_trades a + 1\<rparr>
               else a)
      in a\<lparr>acc_daily_trades := acc_daily_trades a + 1,
           acc_daily_profit := acc_daily_profit a + net_pnl\<rparr>)"

section \<open>CTrade (trading/trade.hpp, trading/trade.cpp)\<close>

datatype ENUM_TRADE_REQUEST_ACTIONS =
    TRADE_ACTION_DEAL | TRADE_ACTION_PENDING | TRADE_ACTION_SLTP | TRADE_ACTION_MODIFY
  | TRADE_ACTION_REMOVE | TRADE_ACTION_CLOSE_BY

datatype ENUM_TRADE_RETCODE =
    TRADE_RETCODE_DONE | TRADE_RETCODE_PLACED | TRADE_RETCODE_DONE_PARTIAL
  | TRADE_RETCODE_ERROR | TRADE_RETCODE_TIMEOUT | TRADE_RETCODE_INVALID
  | TRADE_RETCODE_INVALID_VOLUME | TRADE_RETCODE_INVALID_PRICE | TRADE_RETCODE_INVALID_STOPS
  | TRADE_RETCODE_TRADE_DISABLED | TRADE_RETCODE_MARKET_CLOSED | TRADE_RETCODE_NO_MONEY
  | TRADE_RETCODE_PRICE_CHANGED | TRADE_RETCODE_PRICE_OFF | TRADE_RETCODE_INVALID_EXPIRATION
  | TRADE_RETCODE_ORDER_CHANGED | TRADE_RETCODE_TOO_MANY_REQUESTS | TRADE_RETCODE_NO_CHANGES
  | TRADE_RETCODE_REJECT | TRADE_RETCODE_CANCEL | TRADE_RETCODE_FROZEN
  | TRADE_RETCODE_INVALID_FILL | TRADE_RETCODE_CONNECTION | TRADE_RETCODE_ONLY_REAL
  | TRADE_RETCODE_LIMIT_ORDERS | TRADE_RETCODE_LIMIT_VOLUME | TRADE_RETCODE_INVALID_ORDER
  | TRADE_RETCODE_POSITION_CLOSED

record MqlTradeRequest =
  rq_action :: ENUM_TRADE_REQUEST_ACTIONS
  rq_magic :: u64
  rq_order :: u64
  rq_symbol :: string
  rq_volume :: rat
  rq_price :: rat
  rq_stoplimit :: rat
  rq_sl :: rat
  rq_tp :: rat
  rq_deviation :: u64
  rq_type :: ENUM_ORDER_TYPE
  rq_type_filling :: ENUM_ORDER_TYPE_FILLING
  rq_type_time :: ENUM_ORDER_TYPE_TIME
  rq_expiration :: int
  rq_comment :: string
  rq_position :: u64
  rq_position_by :: u64

definition MqlTradeRequest_new :: MqlTradeRequest where
  "MqlTradeRequest_new =
     \<lparr>rq_action = TRADE_ACTION_DEAL, rq_magic = 0, rq_order = 0, rq_symbol = '''',
      rq_volume = 0, rq_price = 0, rq_stoplimit = 0, rq_sl = 0, rq_tp = 0, rq_deviation = 0,
      rq_type = ORDER_TYPE_BUY, rq_type_filling = ORDER_FILLING_FOK,
      rq_type_time = ORDER_TIME_GTC, rq_expiration = 0, rq_comment = '''', rq_position = 0,
      rq_position_by = 0\<rparr>"

record MqlTradeResult =
  rs_retcode :: ENUM_TRADE_RETCODE
  rs_deal :: u64
  rs_order :: u64
  rs_volume :: rat
  rs_price :: rat
  rs_bid :: rat
  rs_ask :: rat
  rs_comment :: string

definition MqlTradeResult_new :: MqlTradeResult where
  "MqlTradeResult_new =
     \<lparr>rs_retcode = TRADE_RETCODE_ERROR, rs_deal = 0, rs_order = 0, rs_volume = 0,
      rs_price = 0, rs_bid = 0, rs_ask = 0, rs_comment = ''''\<rparr>"

record MqlTradeCheckResult =
  ck_retcode :: ENUM_TRADE_RETCODE
  ck_balance :: rat
  ck_equity :: rat
  ck_profit :: rat
  ck_margin :: rat
  ck_margin_free :: rat
  ck_margin_level :: rat
  ck_comment :: string

definition MqlTradeCheckResult_new :: MqlTradeCheckResult where
  "MqlTradeCheckResult_new =
     \<lparr>ck_retcode = TRADE_RETCODE_DONE, ck_balance = 0, ck_equity = 0, ck_profit = 0,
      ck_margin = 0, ck_margin_free = 0, ck_margin_level = 0, ck_comment = ''''\<rparr>"

text \<open>
  The ledger. Its \<open>unordered_map\<close>s are association lists with one entry per key;
  where the source takes the first match of a loop over a map, the model takes the first
  match in the list. \<open>async_mode_\<close> and \<open>log_level_\<close> only steer logging, which has
  no effect on the state, and are left out.
\<close>

record CTrade =
  ct_account :: AccountInfo
  ct_positions :: "(u64 \<times> PositionInfo) list"
  ct_orders :: "(u64 \<times> OrderInfo) list"
  ct_deals :: "DealInfo list"
  ct_history_orders :: "OrderInfo list"
  ct_next_ticket :: u64
  ct_symbols :: "(u32 \<times> SymbolInfo) list"
  ct_symbol_name_to_id :: "(string \<times> u32) list"
  ct_magic_number :: u32
  ct_deviation :: u64
  ct_type_filling :: ENUM_ORDER_TYPE_FILLING
  ct_last_request :: MqlTradeRequest
  ct_last_result :: MqlTradeResult
  ct_last_check :: MqlTradeCheckResult
  ct_current_time_us :: int

definition CTrade_new :: "rat \<Rightarrow> string \<Rightarrow> int \<Rightarrow> CTrade" where
  "CTrade_new initial_balance currency leverage =
     \<lparr>ct_account = AccountInfo_new initial_balance currency leverage,
      ct_positions = [], ct_orders = [], ct_deals = [], ct_history_orders = [],
      ct_next_ticket = 1000, ct_symbols = [], ct_symbol_name_to_id = [],
      ct_magic_number = 0, ct_deviation = 10, ct_type_filling = ORDER_FILLING_FOK,
      ct_last_request = MqlTradeRequest_new, ct_last_result = MqlTradeResult_new,
      ct_last_check = MqlTradeCheckResult_new, ct_current_time_us = 0\<rparr>"

definition RegisterSymbol :: "CTrade \<Rightarrow> SymbolInfo \<Rightarrow> CTrade" where
  "RegisterSymbol t info =
     (let sid = si_symbol_id info
      in t\<lparr>ct_symbols := AList.update sid info (ct_symbols t),
            ct_symbol_name_to_id := AList.update (si_name info) sid (ct_symbol_name_to_id t)\<rparr>)"

definition SetCurrentTime :: "CTrade \<Rightarrow> int \<Rightarrow> CTrade" where
  "SetCurrentTime t timestamp_us = t\<lparr>ct_current_time_us := timestamp_us\<rparr>"

definition GetSymbolInfo :: "CTrade \<Rightarrow> string \<Rightarrow> SymbolInfo option" where
  "GetSymbolInfo t symbol =
     (case map_of (ct_symbol_name_to_id t) symbol of
        None \<Rightarrow> None
      | Some sid \<Rightarrow> map_of (ct_symbols t) sid)"

text \<open>\<open>CTrade::UpdateEquity\<close>: the sum of the positions' profits, each read as a
  \<open>double\<close> and scaled back to fixed point, goes to the account.\<close>

definition UpdateEquity :: "CTrade \<Rightarrow> CTrade" where
  "UpdateEquity t =
     (let total_unrealized_pnl =
            fold (\<lambda>(ticket, pos) total. total + trunc (Profit pos * 1000000))
                 (ct_positions t) 0
      in t\<lparr>ct_account := AccountInfo_UpdateEquity (ct_account t) total_unrealized_pnl\<rparr>)"

definition CalculateMargin :: "CTrade \<Rightarrow> rat \<Rightarrow> rat \<Rightarrow> SymbolInfo \<Rightarrow> rat" where
  "CalculateMargin t volume price info =
     (let notional = volume * si_contract_size info * price
      in notional / of_int (acc_leverage (ct_account t)))"

text \<open>\<open>CheckRequest\<close> is \<open>const\<close>; it fills the check result handed in and returns
  whether the request is valid.\<close>

definition CheckRequest :: "CTrade \<Rightarrow> MqlTradeRequest \<Rightarrow> MqlTradeCheckResult
    \<Rightarrow> bool \<times> MqlTradeCheckResult" where
  "CheckRequest t request check =
     (let check = check\<lparr>ck_retcode := TRADE_RETCODE_DONE,
                        ck_balance := Balance (ct_account t),
                        ck_equity := Equity (ct_account t),
                        ck_margin := Margin (ct_account t),
                        ck_margin_free := FreeMargin (ct_account t),
                        ck_margin_level := acc_margin_level (ct_account t)\<rparr>
      in case GetSymbolInfo t (rq_symbol request) of
           None \<Rightarrow>
             (False, check\<lparr>ck_retcode := TRADE_RETCODE_INVALID, ck_comment := ''Unknown symbol''\<rparr>)
         | Some info \<Rightarrow>
             if rq_volume request \<le> 0 then
               (False, check\<lparr>ck_retcode := TRADE_RETCODE_INVALID_VOLUME,
                             ck_comment := ''Invalid volume''\<rparr>)
             else if rq_volume request < si_volume_min info
                     \<or> rq_volume request > si_volume_max info then
               (False, check\<lparr>ck_retcode := TRADE_RETCODE_INVALID_VOLUME,
                             ck_comment := ''Volume out of range''\<rparr>)
             else if rq_action request = TRADE_ACTION_DEAL
                     \<or> rq_action request = TRADE_ACTION_PENDING then
               (let price = (if rq_price request > 0 then rq_price request
                             else if rq_type request = ORDER_TYPE_BUY then Ask info
                             else Bid info);
                    required_margin = CalculateMargin t (rq_volume request) price info;
                    check = check\<lparr>ck_margin := ck_margin check + required_margin\<rparr>;
                    check = check\<lparr>ck_margin_free := ck_equity check - ck_margin check\<rparr>
                in if ck_margin_free check < 0 then
                     (False, check\<lparr>ck_retcode := TRADE_RETCODE_NO_MONEY,
                                   ck_comment := ''Insufficient margin''\<rparr>)
                   else
                     (True, check\<lparr>ck_margin_level :=
                                     (if ck_margin check > 0
                                      then ck_equity check / ck_margin check * 100 else 0),
                                   ck_comment := ''Request valid''\<rparr>))
             else (True, check\<lparr>ck_comment := ''Request valid''\<rparr>))"

text \<open>The three places that issue a ticket read the counter and increment it
  (\<open>next_ticket_++\<close>).\<close>

definition InternalPositionOpen :: "CTrade \<Rightarrow> string \<Rightarrow> ENUM_POSITION_TYPE \<Rightarrow> rat \<Rightarrow> rat
    \<Rightarrow> rat \<Rightarrow> rat \<Rightarrow> string \<Rightarrow> u64 \<times> CTrade" where
  "InternalPositionOpen t symbol type volume price sl tp comment =
     (case GetSymbolInfo t symbol of
        None \<Rightarrow> (0, t)
      | Some info \<Rightarrow>
          let ticket = ct_next_ticket t;
              t = t\<lparr>ct_next_ticket := ct_next_ticket t + 1\<rparr>;
              pos = PositionInfo_new;
              pos = pos\<lparr>pi_ticket := ticket, pi_identifier := ticket\<rparr>;
              pos = pos\<lparr>pi_identifier := ticket\<rparr>;
              pos = pos\<lparr>pi_symbol := symbol\<rparr>;
              pos = pos\<lparr>pi_type := type\<rparr>;
              pos = pos\<lparr>pi_volume := volume\<rparr>;
              pos = SetPriceOpen pos price;
              pos = SetPriceCurrent pos price;
              pos = SetStopLoss pos sl;
              pos = SetTakeProfit pos tp;
              pos = pos\<lparr>pi_commission := trunc (0 * 1000000)\<rparr>;
              pos = pos\<lparr>pi_swap := trunc (0 * 1000000)\<rparr>;
              pos = SetTime pos (ct_current_time_us t) 0;
              pos = SetTimeUpdate pos (ct_current_time_us t) 0;
              pos = pos\<lparr>pi_magic := ct_magic_number t\<rparr>;
              pos = pos\<lparr>pi_comment := comment\<rparr>;
              pos = pos\<lparr>pi_digits := si_digits info\<rparr>;
              pos = pos\<lparr>pi_point := si_point info\<rparr>;
              pos = pos\<lparr>pi_contract_size := si_contract_size info\<rparr>;
              pos = RecalculateProfit pos;
              t = t\<lparr>ct_positions := AList.update ticket pos (ct_positions t)\<rparr>;
              margin = CalculateMargin t volume price info;
              t = t\<lparr>ct_account := AddMargin (ct_account t) (trunc (margin * 1000000))\<rparr>;
              t = UpdateEquity t
          in (ticket, t))"

definition InternalOrderPlace :: "CTrade \<Rightarrow> string \<Rightarrow> ENUM_ORDER_TYPE \<Rightarrow> rat \<Rightarrow> rat \<Rightarrow> rat
    \<Rightarrow> rat \<Rightarrow> rat \<Rightarrow> ENUM_ORDER_TYPE_TIME \<Rightarrow> int \<Rightarrow> string \<Rightarrow> u64 \<times> CTrade" where
  "InternalOrderPlace t symbol type volume price stop_limit sl tp type_time expiration comment =
     (case GetSymbolInfo t symbol of
        None \<Rightarrow> (0, t)
      | Some info \<Rightarrow>
          let ticket = ct_next_ticket t;
              t = t\<lparr>ct_next_ticket := ct_next_ticket t + 1\<rparr>;
              order = OrderInfo_new;
              order = order\<lparr>oi_ticket := ticket\<rparr>;
              order = order\<lparr>oi_symbol := symbol\<rparr>;
              order = order\<lparr>oi_order_type := type\<rparr>;
              order = order\<lparr>oi_state := ORDER_STATE_PLACED\<rparr>;
              order = order\<lparr>oi_volume_initial := volume\<rparr>;
              order = order\<lparr>oi_volume_current := volume\<rparr>;
              order = OrderInfo_SetPriceOpen order price;
              order = OrderInfo_SetStopLoss order sl;
              order = OrderInfo_SetTakeProfit order tp;
              order = OrderInfo_SetPriceStopLimit order stop_limit;
              order = order\<lparr>oi_type_filling := ct_type_filling t\<rparr>;
              order = order\<lparr>oi_type_time := type_time\<rparr>;
              order = order\<lparr>oi_time_expiration := expiration\<rparr>;
              order = OrderInfo_SetTimeSetup order (ct_current_time_us t) 0;
              order = OrderInfo_SetTimeDone order 0 0;
              order = order\<lparr>oi_magic := ct_magic_number t\<rparr>;
              order = order\<lparr>oi_comment := comment\<rparr>;
              t = t\<lparr>ct_orders := AList.update ticket order (ct_orders t)\<rparr>
          in (ticket, t))"

definition InternalPositionClose :: "CTrade \<Rightarrow> u64 \<Rightarrow> rat \<Rightarrow> rat \<Rightarrow> bool \<times> CTrade" where
  "InternalPositionClose t ticket volume price =
     (case map_of (ct_positions t) ticket of
        None \<Rightarrow> (False, t)
      | Some pos \<Rightarrow>
          (case GetSymbolInfo t (pi_symbol pos) of
             None \<Rightarrow> (False, t)
           | Some info \<Rightarrow>
               let pos = UpdatePrice pos price;
                   t = t\<lparr>ct_positions := AList.update ticket pos (ct_positions t)\<rparr>;
                   close_volume = min volume (pi_volume pos);
                   full_close = (close_volume \<ge> pi_volume pos);
                   profit_ratio = close_volume / pi_volume pos;
                   realized_profit = Profit pos * profit_ratio;
                   deal = DealInfo_new;
                   deal = deal\<lparr>di_ticket := ct_next_ticket t\<rparr>;
                   t = t\<lparr>ct_next_ticket := ct_next_ticket t + 1\<rparr>;
                   deal = deal\<lparr>di_position_id := ticket\<rparr>;
                   deal = deal\<lparr>di_order := 0\<rparr>;
                   deal = deal\<lparr>di_symbol := pi_symbol pos\<rparr>;
                   deal_type = (if pi_type pos = POSITION_TYPE_BUY then DEAL_TYPE_SELL
                                else DEAL_TYPE_BUY);
                   deal = deal\<lparr>di_type := deal_type\<rparr>;
                   deal = deal\<lparr>di_entry := (if full_close then DEAL_ENTRY_OUT
                                              else DEAL_ENTRY_OUT)\<rparr>;
                   deal = deal\<lparr>di_volume := close_volume\<rparr>;
                   deal = deal\<lparr>di_price := to_fixed price (di_digits deal)\<rparr>;
                   deal = deal\<lparr>di_profit := trunc (realized_profit * 1000000)\<rparr>;
                   deal = deal\<lparr>di_commission :=
                                 trunc (Commission pos * profit_ratio * 1000000)\<rparr>;
                   deal = deal\<lparr>di_swap := trunc (Swap pos * profit_ratio * 1000000)\<rparr>;
                   deal = deal\<lparr>di_time := ct_current_time_us t,
                                di_time_msc := ct_current_time_us t * 1000\<rparr>;
                   deal = deal\<lparr>di_magic := pi_magic pos\<rparr>;
                   deal = deal\<lparr>di_comment := pi_comment pos\<rparr>;
                   deal = deal\<lparr>di_entry_price := to_fixed (PriceOpen pos) (di_digits deal)\<rparr>;
                   deal = deal\<lparr>di_exit_price := to_fixed price (di_digits deal)\<rparr>;
                   deal = deal\<lparr>di_entry_time := pi_time pos\<rparr>;
                   deal = deal\<lparr>di_exit_time := ct_current_time_us t\<rparr>;
                   t = t\<lparr>ct_deals := ct_deals t @ [deal]\<rparr>;
                   realized_pnl_fp = trunc (realized_profit * 1000000);
                   commission_fp = trunc (of_int (di_commission deal) / 1000000 * 1000000);
                   swap_fp = trunc (of_int (di_swap deal) / 1000000 * 1000000);
                   t = t\<lparr>ct_account :=
                           ApplyRealizedPnL (ct_account t) realized_pnl_fp commission_fp swap_fp\<rparr>;
                   t = (if full_close then
                          let margin = CalculateMargin t (pi_volume pos) (PriceOpen pos) info;
                              t = t\<lparr>ct_account :=
                                      SubtractMargin (ct_account t) (trunc (margin * 1000000))\<rparr>
                          in t\<lparr>ct_positions := AList.delete ticket (ct_positions t)\<rparr>
                        else
                          let pos = pos\<lparr>pi_volume := pi_volume pos - close_volume\<rparr>;
                              pos = RecalculateProfit pos;
                              t = t\<lparr>ct_positions := AList.update ticket pos (ct_positions t)\<rparr>;
                              old_margin = CalculateMargin t (pi_volume pos + close_volume)
                                             (PriceOpen pos) info;
                              new_margin = CalculateMargin t (pi_volume pos) (PriceOpen pos) info
                          in t\<lparr>ct_account :=
                                  SubtractMargin (ct_account t)
                                    (trunc ((old_margin - new_margin) * 1000000))\<rparr>);
                   t = UpdateEquity t;
                   t = t\<lparr>ct_last_result := (ct_last_result t)
                          \<lparr>rs_retcode := TRADE_RETCODE_DONE,
                           rs_deal := di_ticket deal,
                           rs_volume := close_volume,
                           rs_price := price,
                           rs_comment := (if full_close then ''Position closed''
                                          else ''Position partially closed'')\<rparr>\<rparr>
               in (True, t)))"

definition ExecuteRequest :: "CTrade \<Rightarrow> MqlTradeRequest \<Rightarrow> bool \<times> CTrade" where
  "ExecuteRequest t request =
     (let t = t\<lparr>ct_last_result := MqlTradeResult_new\<rparr>
      in case GetSymbolInfo t (rq_symbol request) of
           None \<Rightarrow>
             (False, t\<lparr>ct_last_result := (ct_last_result t)
                         \<lparr>rs_retcode := TRADE_RETCODE_INVALID,
                          rs_comment := ''Symbol not found''\<rparr>\<rparr>)
         | Some info \<Rightarrow>
             let t = t\<lparr>ct_last_result := (ct_last_result t)
                         \<lparr>rs_bid := Bid info, rs_ask := Ask info\<rparr>\<rparr>
             in (case rq_action request of
                  TRADE_ACTION_DEAL \<Rightarrow>
                    if rq_type request \<noteq> ORDER_TYPE_BUY \<and> rq_type request \<noteq> ORDER_TYPE_SELL
                    then (False, t\<lparr>ct_last_result := (ct_last_result t)
                                    \<lparr>rs_retcode := TRADE_RETCODE_INVALID,
                                     rs_comment := ''Invalid order type for market execution''\<rparr>\<rparr>)
                    else
                      let pos_type = (if rq_type request = ORDER_TYPE_BUY then POSITION_TYPE_BUY
                                      else POSITION_TYPE_SELL);
                          exec_price = (if rq_type request = ORDER_TYPE_BUY then Ask info
                                        else Bid info);
                          (ticket, t) = InternalPositionOpen t (rq_symbol request) pos_type
                                          (rq_volume request) exec_price (rq_sl request)
                                          (rq_tp request) (rq_comment request)
                      in if ticket > 0
                         then (True, t\<lparr>ct_last_result := (ct_last_result t)
                                        \<lparr>rs_retcode := TRADE_RETCODE_DONE,
                                         rs_order := ticket,
                                         rs_volume := rq_volume request,
                                         rs_price := exec_price,
                                         rs_comment := ''Position opened''\<rparr>\<rparr>)
                         else (False, t\<lparr>ct_last_result := (ct_last_result t)
                                         \<lparr>rs_retcode := TRADE_RETCODE_ERROR,
                                          rs_comment := ''Failed to open position''\<rparr>\<rparr>)
                | TRADE_ACTION_PENDING \<Rightarrow>
                    let (ticket, t) = InternalOrderPlace t (rq_symbol request) (rq_type request)
                                        (rq_volume request) (rq_price request)
                                        (rq_stoplimit request) (rq_sl request) (rq_tp request)
                                        (rq_type_time request) (rq_expiration request)
                                        (rq_comment request)
                    in if ticket > 0
                       then (True, t\<lparr>ct_last_result := (ct_last_result t)
                                      \<lparr>rs_retcode := TRADE_RETCODE_PLACED,
                                       rs_order := ticket,
                                       rs_volume := rq_volume request,
                                       rs_price := rq_price request,
                                       rs_comment := ''Order placed''\<rparr>\<rparr>)
                       else (False, t\<lparr>ct_last_result := (ct_last_result t)
                                       \<lparr>rs_retcode := TRADE_RETCODE_ERROR,
                                        rs_comment := ''Failed to place order''\<rparr>\<rparr>)
                | _ \<Rightarrow>
                    (False, t\<lparr>ct_last_result := (ct_last_result t)
                                \<lparr>rs_retcode := TRADE_RETCODE_INVALID,
                                 rs_comment := ''Unsupported action''\<rparr>\<rparr>)))"

text \<open>The common tail of \<open>PositionOpen\<close> and \<open>OrderOpen\<close>: check the request just
  built, then execute it.\<close>

definition check_and_execute :: "CTrade \<Rightarrow> bool \<times> CTrade" where
  "check_and_execute t =
     (let (ok, check) = CheckRequest t (ct_last_request t) (ct_last_check t);
          t = t\<lparr>ct_last_check := check\<rparr>
      in if \<not> ok
         then (False, t\<lparr>ct_last_result := (ct_last_result t)
                         \<lparr>rs_retcode := ck_retcode (ct_last_check t),
                          rs_comment := ck_comment (ct_last_check t)\<rparr>\<rparr>)
         else ExecuteRequest t (ct_last_request t))"

definition PositionOpen :: "CTrade \<Rightarrow> string \<Rightarrow> ENUM_ORDER_TYPE \<Rightarrow> rat \<Rightarrow> rat \<Rightarrow> rat \<Rightarrow> rat
    \<Rightarrow> string \<Rightarrow> bool \<times> CTrade" where
  "PositionOpen t symbol order_type volume price sl tp comment =
     check_and_execute
       (t\<lparr>ct_last_request := MqlTradeRequest_new
            \<lparr>rq_action := TRADE_ACTION_DEAL, rq_symbol := symbol, rq_type := order_type,
             rq_volume := volume, rq_price := price, rq_sl := sl, rq_tp := tp,
             rq_deviation := ct_deviation t, rq_type_filling := ct_type_filling t,
             rq_magic := ucast (ct_magic_number t), rq_comment := comment\<rparr>\<rparr>)"

text \<open>\<open>PositionModify(ticket, sl, tp)\<close>.\<close>

definition PositionModify :: "CTrade \<Rightarrow> u64 \<Rightarrow> rat \<Rightarrow> rat \<Rightarrow> bool \<times> CTrade" where
  "PositionModify t ticket sl tp =
     (case map_of (ct_positions t) ticket of
        None \<Rightarrow>
          (False, t\<lparr>ct_last_result := (ct_last_result t)
                      \<lparr>rs_retcode := TRADE_RETCODE_INVALID_ORDER,
                       rs_comment := ''Position not found''\<rparr>\<rparr>)
      | Some pos \<Rightarrow>
          let t = t\<lparr>ct_last_request := MqlTradeRequest_new
                      \<lparr>rq_action := TRADE_ACTION_SLTP, rq_position := ticket,
                       rq_symbol := pi_symbol pos, rq_sl := sl, rq_tp := tp,
                       rq_magic := ucast (ct_magic_number t)\<rparr>\<rparr>;
              pos = (if sl > 0 then SetStopLoss pos sl else pos);
              pos = (if tp > 0 then SetTakeProfit pos tp else pos);
              t = t\<lparr>ct_positions := AList.update ticket pos (ct_positions t)\<rparr>;
              t = t\<lparr>ct_last_result := (ct_last_result t)
                      \<lparr>rs_retcode := TRADE_RETCODE_DONE,
                       rs_comment := ''Position modified''\<rparr>\<rparr>
          in (True, t))"

text \<open>\<open>PositionModify(symbol, sl, tp)\<close>: the first position on the symbol.\<close>

definition PositionModify_symbol :: "CTrade \<Rightarrow> string \<Rightarrow> rat \<Rightarrow> rat \<Rightarrow> bool \<times> CTrade" where
  "PositionModify_symbol t symbol sl tp =
     (case find (\<lambda>(ticket, p). pi_symbol p = symbol) (ct_positions t) of
        None \<Rightarrow>
          (False, t\<lparr>ct_last_result := (ct_last_result t)
                      \<lparr>rs_retcode := TRADE_RETCODE_INVALID_ORDER,
                       rs_comment := ''Position not found''\<rparr>\<rparr>)
      | Some (ticket, pos) \<Rightarrow> PositionModify t (pi_ticket pos) sl tp)"

definition PositionClose :: "CTrade \<Rightarrow> u64 \<Rightarrow> u64 \<Rightarrow> bool \<times> CTrade" where
  "PositionClose t ticket deviation =
     (case map_of (ct_positions t) ticket of
        None \<Rightarrow>
          (False, t\<lparr>ct_last_result := (ct_last_result t)
                      \<lparr>rs_retcode := TRADE_RETCODE_POSITION_CLOSED,
                       rs_comment := ''Position not found''\<rparr>\<rparr>)
      | Some pos \<Rightarrow>
          let t = t\<lparr>ct_last_request := MqlTradeRequest_new
                      \<lparr>rq_action := TRADE_ACTION_DEAL, rq_position := ticket,
                       rq_symbol := pi_symbol pos, rq_volume := pi_volume pos,
                       rq_deviation := (if deviation > 0 then deviation else ct_deviation t),
                       rq_magic := ucast (ct_magic_number t)\<rparr>\<rparr>
          in (case GetSymbolInfo t (pi_symbol pos) of
               None \<Rightarrow>
                 (False, t\<lparr>ct_last_result := (ct_last_result t)
                             \<lparr>rs_retcode := TRADE_RETCODE_INVALID,
                              rs_comment := ''Symbol not found''\<rparr>\<rparr>)
             | Some info \<Rightarrow>
                 let close_price = (if pi_type pos = POSITION_TYPE_BUY then Bid info
                                    else Ask info)
                 in InternalPositionClose t ticket (pi_volume pos) close_price))"

definition PositionClose_symbol :: "CTrade \<Rightarrow> string \<Rightarrow> u64 \<Rightarrow> bool \<times> CTrade" where
  "PositionClose_symbol t symbol deviation =
     (let ticket = (case find (\<lambda>(k, p). pi_symbol p = symbol) (ct_positions t) of
                      None \<Rightarrow> 0 | Some (k, p) \<Rightarrow> k)
      in if ticket = 0
         then (False, t\<lparr>ct_last_result := (ct_last_result t)
                         \<lparr>rs_retcode := TRADE_RETCODE_INVALID_ORDER,
                          rs_comment := ''Position not found''\<rparr>\<rparr>)
         else PositionClose t ticket deviation)"

definition PositionClosePartial :: "CTrade \<Rightarrow> u64 \<Rightarrow> rat \<Rightarrow> u64 \<Rightarrow> bool \<times> CTrade" where
  "PositionClosePartial t ticket volume deviation =
     (case map_of (ct_positions t) ticket of
        None \<Rightarrow>
          (False, t\<lparr>ct_last_result := (ct_last_result t)
                      \<lparr>rs_retcode := TRADE_RETCODE_POSITION_CLOSED,
                       rs_comment := ''Position not found''\<rparr>\<rparr>)
      | Some pos \<Rightarrow>
          if volume \<ge> pi_volume pos then PositionClose t ticket deviation
          else
            (case GetSymbolInfo t (pi_symbol pos) of
               None \<Rightarrow>
                 (False, t\<lparr>ct_last_result := (ct_last_result t)
                             \<lparr>rs_retcode := TRADE_RETCODE_INVALID,
                              rs_comment := ''Symbol not found''\<rparr>\<rparr>)
             | Some info \<Rightarrow>
                 let close_price = (if pi_type pos = POSITION_TYPE_BUY then Bid info
                                    else Ask info);
                     t = t\<lparr>ct_last_request := MqlTradeRequest_new
                             \<lparr>rq_action := TRADE_ACTION_DEAL, rq_position := ticket,
                              rq_symbol := pi_symbol pos, rq_volume := volume,
                              rq_deviation :=
                                (if deviation > 0 then deviation else ct_deviation t),
                              rq_magic := ucast (ct_magic_number t)\<rparr>\<rparr>
                 in InternalPositionClose t ticket volume close_price))"

definition PositionClosePartial_symbol :: "CTrade \<Rightarrow> string \<Rightarrow> rat \<Rightarrow> u64 \<Rightarrow> bool \<times> CTrade" where
  "PositionClosePartial_symbol t symbol volume deviation =
     (let ticket = (case find (\<lambda>(k, p). pi_symbol p = symbol) (ct_positions t) of
                      None \<Rightarrow> 0 | Some (k, p) \<Rightarrow> k)
      in if ticket = 0
         then (False, t\<lparr>ct_last_result := (ct_last_result t)
                         \<lparr>rs_retcode := TRADE_RETCODE_INVALID_ORDER,
                          rs_comment := ''Position not found''\<rparr>\<rparr>)
         else PositionClosePartial t ticket volume deviation)"

definition PositionCloseBy :: "CTrade \<Rightarrow> u64 \<Rightarrow> u64 \<Rightarrow> bool \<times> CTrade" where
  "PositionCloseBy t ticket ticket_by =
     (if map_of (ct_positions t) ticket = None \<or> map_of (ct_positions t) ticket_by = None
      then (False, t\<lparr>ct_last_result := (ct_last_result t)
                      \<lparr>rs_retcode := TRADE_RETCODE_INVALID_ORDER,
                       rs_comment := ''Position not found''\<rparr>\<rparr>)
      else
        let pos1 = the (map_of (ct_positions t) ticket);
            pos2 = the (map_of (ct_positions t) ticket_by)
        in if pi_symbol pos1 \<noteq> pi_symbol pos2 then
             (False, t\<lparr>ct_last_result := (ct_last_result t)
                         \<lparr>rs_retcode := TRADE_RETCODE_INVALID,
                          rs_comment := ''Positions must be on same symbol''\<rparr>\<rparr>)
           else if pi_type pos1 = pi_type pos2 then
             (False, t\<lparr>ct_last_result := (ct_last_result t)
                         \<lparr>rs_retcode := TRADE_RETCODE_INVALID,
                          rs_comment := ''Positions must be opposite types''\<rparr>\<rparr>)
           else
             let t = t\<lparr>ct_last_request := MqlTradeRequest_new
                         \<lparr>rq_action := TRADE_ACTION_CLOSE_BY, rq_position := ticket,
                          rq_position_by := ticket_by,
                          rq_magic := ucast (ct_magic_number t)\<rparr>\<rparr>;
                 volume = min (pi_volume pos1) (pi_volume pos2)
             in case GetSymbolInfo t (pi_symbol pos1) of
                  None \<Rightarrow>
                    (False, t\<lparr>ct_last_result := (ct_last_result t)
                                \<lparr>rs_retcode := TRADE_RETCODE_INVALID,
                                 rs_comment := ''Symbol not found''\<rparr>\<rparr>)
                | Some info \<Rightarrow>
                    let price = Bid info;
                        (success, t) = InternalPositionClose t ticket volume price
                    in if success
                       then (success, snd (InternalPositionClose t ticket_by volume price))
                       else (success, t))"

definition OrderOpen :: "CTrade \<Rightarrow> string \<Rightarrow> ENUM_ORDER_TYPE \<Rightarrow> rat \<Rightarrow> rat \<Rightarrow> rat \<Rightarrow> rat \<Rightarrow> rat
    \<Rightarrow> ENUM_ORDER_TYPE_TIME \<Rightarrow> int \<Rightarrow> string \<Rightarrow> bool \<times> CTrade" where
  "OrderOpen t symbol order_type volume limit_price stop_price sl tp type_time expiration comment =
     check_and_execute
       (t\<lparr>ct_last_request := MqlTradeRequest_new
            \<lparr>rq_action := TRADE_ACTION_PENDING, rq_symbol := symbol, rq_type := order_type,
             rq_volume := volume, rq_price := limit_price, rq_stoplimit := stop_price,
             rq_sl := sl, rq_tp := tp, rq_type_filling := ct_type_filling t,
             rq_type_time := type_time, rq_expiration := expiration,
             rq_magic := ucast (ct_magic_number t), rq_comment := comment\<rparr>\<rparr>)"

definition OrderModify :: "CTrade \<Rightarrow> u64 \<Rightarrow> rat \<Rightarrow> rat \<Rightarrow> rat \<Rightarrow> rat \<Rightarrow> int \<Rightarrow> bool \<times> CTrade" where
  "OrderModify t ticket price sl tp stop_limit expiration =
     (case map_of (ct_orders t) ticket of
        None \<Rightarrow>
          (False, t\<lparr>ct_last_result := (ct_last_result t)
                      \<lparr>rs_retcode := TRADE_RETCODE_INVALID_ORDER,
                       rs_comment := ''Order not found''\<rparr>\<rparr>)
      | Some order \<Rightarrow>
          let t = t\<lparr>ct_last_request := MqlTradeRequest_new
                      \<lparr>rq_action := TRADE_ACTION_MODIFY, rq_order := ticket,
                       rq_price := price, rq_stoplimit := stop_limit, rq_sl := sl,
                       rq_tp := tp, rq_expiration := expiration,
                       rq_magic := ucast (ct_magic_number t)\<rparr>\<rparr>;
              order = (if price > 0 then OrderInfo_SetPriceOpen order price else order);
              order = (if sl > 0 then OrderInfo_SetStopLoss order sl else order);
              order = (if tp > 0 then OrderInfo_SetTakeProfit order tp else order);
              order = (if stop_limit > 0 then OrderInfo_SetPriceStopLimit order stop_limit
                       else order);
              order = (if expiration > 0 then order\<lparr>oi_time_expiration := expiration\<rparr>
                       else order);
              t = t\<lparr>ct_orders := AList.update ticket order (ct_orders t)\<rparr>;
              t = t\<lparr>ct_last_result := (ct_last_result t)
                      \<lparr>rs_retcode := TRADE_RETCODE_DONE, rs_order := ticket,
                       rs_comment := ''Order modified''\<rparr>\<rparr>
          in (True, t))"

definition OrderDelete :: "CTrade \<Rightarrow> u64 \<Rightarrow> bool \<times> CTrade" where
  "OrderDelete t ticket =
     (case map_of (ct_orders t) ticket of
        None \<Rightarrow>
          (False, t\<lparr>ct_last_result := (ct_last_result t)
                      \<lparr>rs_retcode := TRADE_RETCODE_INVALID_ORDER,
                       rs_comment := ''Order not found''\<rparr>\<rparr>)
      | Some order \<Rightarrow>
          let t = t\<lparr>ct_last_request := MqlTradeRequest_new
                      \<lparr>rq_action := TRADE_ACTION_REMOVE, rq_order := ticket,
                       rq_magic := ucast (ct_magic_number t)\<rparr>\<rparr>;
              order = order\<lparr>oi_state := ORDER_STATE_CANCELED\<rparr>;
              order = OrderInfo_SetTimeDone order (ct_current_time_us t) 0;
              t = t\<lparr>ct_history_orders := ct_history_orders t @ [HistoryOrderInfo order]\<rparr>;
              t = t\<lparr>ct_orders := AList.delete ticket (ct_orders t)\<rparr>;
              t = t\<lparr>ct_last_result := (ct_last_result t)
                      \<lparr>rs_retcode := TRADE_RETCODE_DONE,
                       rs_comment := ''Order deleted''\<rparr>\<rparr>
          in (True, t))"

definition UpdatePrices :: "CTrade \<Rightarrow> string \<Rightarrow> rat \<Rightarrow> rat \<Rightarrow> int \<Rightarrow> CTrade" where
  "UpdatePrices t symbol b a timestamp =
     (case map_of (ct_symbol_name_to_id t) symbol of
        None \<Rightarrow> t
      | Some sid \<Rightarrow>
          (case map_of (ct_symbols t) sid of
             None \<Rightarrow> t
           | Some info \<Rightarrow>
               let t = t\<lparr>ct_symbols :=
                           AList.update sid (SymbolInfo_UpdatePrice info b a timestamp)
                             (ct_symbols t)\<rparr>;
                   t = (if timestamp > 0 then t\<lparr>ct_current_time_us := timestamp\<rparr> else t);
                   t = t\<lparr>ct_positions :=
                           map (\<lambda>(ticket, pos).
                                  if pi_symbol pos = symbol
                                  then (ticket,
                                        UpdatePrice pos
                                          (if pi_type pos = POSITION_TYPE_BUY then b else a))
                                  else (ticket, pos))
                               (ct_positions t)\<rparr>
               in UpdateEquity t))"

definition TrailingStopEnable :: "CTrade \<Rightarrow> u64 \<Rightarrow> int \<Rightarrow> int \<Rightarrow> bool \<times> CTrade" where
  "TrailingStopEnable t ticket distance step =
     (case map_of (ct_positions t) ticket of
        None \<Rightarrow> (False, t)
      | Some pos \<Rightarrow>
          let pos = pos\<lparr>pi_trailing_distance := distance\<rparr>;
              pos = pos\<lparr>pi_trailing_step := step\<rparr>;
              pos = SetTrailingTrigger pos (PriceCurrent pos)
          in (True, t\<lparr>ct_positions := AList.update ticket pos (ct_positions t)\<rparr>))"

definition TrailingStopDisable :: "CTrade \<Rightarrow> u64 \<Rightarrow> bool \<times> CTrade" where
  "TrailingStopDisable t ticket =
     (case map_of (ct_positions t) ticket of
        None \<Rightarrow> (False, t)
      | Some pos \<Rightarrow>
          let pos = pos\<lparr>pi_trailing_distance := 0\<rparr>;
              pos = pos\<lparr>pi_trailing_step := 0\<rparr>
          in (True, t\<lparr>ct_positions := AList.update ticket pos (ct_positions t)\<rparr>))"

subsection \<open>Snapshots\<close>

record Snapshot =
  snap_account :: AccountInfo
  snap_positions :: "PositionInfo list"
  snap_orders :: "OrderInfo list"
  snap_deals :: "DealInfo list"
  snap_history_orders :: "OrderInfo list"
  snap_next_ticket :: u64
  snap_symbols :: "(u32 \<times> SymbolInfo) list"

definition CreateSnapshot :: "CTrade \<Rightarrow> Snapshot" where
  "CreateSnapshot t =
     \<lparr>snap_account = ct_account t,
      snap_positions = map snd (ct_positions t),
      snap_orders = map snd (ct_orders t),
      snap_deals = ct_deals t,
      snap_history_orders = ct_history_orders t,
      snap_next_ticket = ct_next_ticket t,
      snap_symbols = ct_symbols t\<rparr>"

definition RestoreSnapshot :: "CTrade \<Rightarrow> Snapshot \<Rightarrow> CTrade" where
  "RestoreSnapshot t snap =
     t\<lparr>ct_account := snap_account snap,
       ct_next_ticket := snap_next_ticket snap,
       ct_symbols := snap_symbols snap,
       ct_deals := snap_deals snap,
       ct_history_orders := snap_history_orders snap,
       ct_positions := fold (\<lambda>pos m. AList.update (pi_ticket pos) pos m) (snap_positions snap) [],
       ct_orders := fold (\<lambda>order m. AList.update (oi_ticket order) order m) (snap_orders snap) []\<rparr>"

subsection \<open>Trailing stops\<close>

definition StopLoss :: "PositionInfo \<Rightarrow> rat" where
  "StopLoss p = of_int (pi_stop_loss p) / pow10 (pi_digits p)"

text \<open>The body of the loop of \<open>UpdateTrailingStops\<close> for one position; a
  \<open>continue\<close> leaves the position as it is.\<close>

definition trail_position :: "CTrade \<Rightarrow> PositionInfo \<Rightarrow> PositionInfo" where
  "trail_position t pos =
     (let distance = pi_trailing_distance pos
      in if distance = 0 then pos
         else
           (case GetSymbolInfo t (pi_symbol pos) of
              None \<Rightarrow> pos
            | Some info \<Rightarrow>
                let trail_distance = of_int distance * si_point info;
                    step = pi_trailing_step pos;
                    current_price = PriceCurrent pos;
                    current_sl = StopLoss pos;
                    step_distance = of_int step * si_point info;
                    trigger_price = of_int (pi_trailing_trigger pos) / pow10 (si_digits info)
                in if pi_type pos = POSITION_TYPE_BUY then
                     let new_sl = current_price - trail_distance
                     in if current_sl = 0 \<or> new_sl > current_sl then
                          if step > 0 \<and>
                             (if current_sl > 0 then new_sl - current_sl < step_distance
                              else current_price - trigger_price < step_distance)
                          then pos
                          else SetTrailingTrigger (SetStopLoss pos new_sl) current_price
                        else pos
                   else
                     let new_sl = current_price + trail_distance
                     in if current_sl = 0 \<or> new_sl < current_sl then
                          if step > 0 \<and>
                             (if current_sl > 0 then current_sl - new_sl < step_distance
                              else trigger_price - current_price < step_distance)
                          then pos
                          else SetTrailingTrigger (SetStopLoss pos new_sl) current_price
                        else pos))"

definition UpdateTrailingStops :: "CTrade \<Rightarrow> CTrade" where
  "UpdateTrailingStops t =
     t\<lparr>ct_positions := map (\<lambda>(ticket, pos). (ticket, trail_position t pos)) (ct_positions t)\<rparr>"

subsection \<open>The public commands as data\<close>

text \<open>
  One constructor for each public method of \<open>CTrade\<close> that changes the ledger, apart
  from \<open>RestoreSnapshot\<close>; \<open>exec\<close> runs a command and drops the \<open>bool\<close> it
  returns, \<open>run\<close> runs a list of commands from left to right.
\<close>

datatype command =
    CmdPositionOpen string ENUM_ORDER_TYPE rat rat rat rat string
  | CmdPositionModify u64 rat rat
  | CmdPositionModifySymbol string rat rat
  | CmdPositionClose u64 u64
  | CmdPositionCloseSymbol string u64
  | CmdPositionClosePartial u64 rat u64
  | CmdPositionClosePartialSymbol string rat u64
  | CmdPositionCloseBy u64 u64
  | CmdOrderOpen string ENUM_ORDER_TYPE rat rat rat rat rat ENUM_ORDER_TYPE_TIME int string
  | CmdOrderModify u64 rat rat rat rat int
  | CmdOrderDelete u64
  | CmdUpdatePrices string rat rat int
  | CmdTrailingStopEnable u64 int int
  | CmdTrailingStopDisable u64
  | CmdUpdateTrailingStops
  | CmdRegisterSymbol SymbolInfo
  | CmdSetCurrentTime int
  | CmdSetExpertMagicNumber u32
  | CmdSetDeviationInPoints u64
  | CmdSetTypeFilling ENUM_ORDER_TYPE_FILLING

fun exec :: "command \<Rightarrow> CTrade \<Rightarrow> CTrade" where
  "exec (CmdPositionOpen symbol order_type volume price sl tp comment) t =
     snd (PositionOpen t symbol order_type volume price sl tp comment)"
| "exec (CmdPositionModify ticket sl tp) t = snd (PositionModify t ticket sl tp)"
| "exec (CmdPositionModifySymbol symbol sl tp) t = snd (PositionModify_symbol t symbol sl tp)"
| "exec (CmdPositionClose ticket deviation) t = snd (PositionClose t ticket deviation)"
| "exec (CmdPositionCloseSymbol symbol deviation) t =
     snd (PositionClose_symbol t symbol deviation)"
| "exec (CmdPositionClosePartial ticket volume deviation) t =
     snd (PositionClosePartial t ticket volume deviation)"
| "exec (CmdPositionClosePartialSymbol symbol volume deviation) t =
     snd (PositionClosePartial_symbol t symbol volume deviation)"
| "exec (CmdPositionCloseBy ticket ticket_by) t = snd (PositionCloseBy t ticket ticket_by)"
| "exec (CmdOrderOpen symbol order_type volume limit_price stop_price sl tp type_time
          expiration comment) t =
     snd (OrderOpen t symbol order_type volume limit_price stop_price sl tp type_time
            expiration comment)"
| "exec (CmdOrderModify ticket price sl tp stop_limit expiration) t =
     snd (OrderModify t ticket price sl tp stop_limit expiration)"
| "exec (CmdOrderDelete ticket) t = snd (OrderDelete t ticket)"
| "exec (CmdUpdatePrices symbol b a timestamp) t = UpdatePrices t symbol b a timestamp"
| "exec (CmdTrailingStopEnable ticket distance step) t =
     snd (TrailingStopEnable t ticket distance step)"
| "exec (CmdTrailingStopDisable ticket) t = snd (TrailingStopDisable t ticket)"
| "exec CmdUpdateTrailingStops t = UpdateTrailingStops t"
| "exec (CmdRegisterSymbol info) t = RegisterSymbol t info"
| "exec (CmdSetCurrentTime timestamp_us) t = SetCurrentTime t timestamp_us"
| "exec (CmdSetExpertMagicNumber magic) t = t\<lparr>ct_magic_number := magic\<rparr>"
| "exec (CmdSetDeviationInPoints deviation) t = t\<lparr>ct_deviation := deviation\<rparr>"
| "exec (CmdSetTypeFilling filling) t = t\<lparr>ct_type_filling := filling\<rparr>"

definition run :: "command list \<Rightarrow> CTrade \<Rightarrow> CTrade" where
  "run cs t = fold exec cs t"

subsection \<open>What the specification says of the ledger\<close>




text \<open>
  The stops-level rule of the specification: a stop loss or take profit must be at least
  \<open>stops_level * point\<close> away from the current market, the bid for a long position and
  the ask for a short one. The predicate holds when a requested level is closer.
\<close>

definition violates_stops_level :: "SymbolInfo \<Rightarrow> ENUM_POSITION_TYPE \<Rightarrow> rat \<Rightarrow> rat \<Rightarrow> bool" where
  "violates_stops_level info side sl tp =
     (let dist = of_int (si_stops_level info) * si_point info
      in if side = POSITION_TYPE_BUY
         then (sl > 0 \<and> Bid info - sl < dist) \<or> (tp > 0 \<and> tp - Bid info < dist)
         else (sl > 0 \<and> sl - Ask info < dist) \<or> (tp > 0 \<and> Ask info - tp < dist))"

subsection \<open>Scenarios\<close>

definition symbol_spec :: "string \<Rightarrow> u32 \<Rightarrow> string \<Rightarrow> SymbolInfo" where
  "symbol_spec name sid profit_currency =
     \<lparr>si_name = name, si_symbol_id = sid, si_bid = 0, si_bid_high = 0, si_bid_low = 0,
      si_ask = 0, si_ask_high = 0, si_ask_low = 0, si_time = 0, si_digits = 5,
      si_point = 1 / 100000, si_spread = 0, si_contract_size = 100000,
      si_volume_min = 1 / 100, si_volume_max = 100, si_stops_level = 10,
      si_currency_profit = profit_currency\<rparr>"

text \<open>A USD account trading EURUSD: one long position of 0.1 lot opened at the ask
  1.10015 (scenario S1), ticket 1000.\<close>

definition ledger_EURUSD :: CTrade where
  "ledger_EURUSD =
     run [CmdRegisterSymbol (symbol_spec ''EURUSD'' 1 ''USD''),
          CmdUpdatePrices ''EURUSD'' (110000 / 100000) (110015 / 100000) 1000000,
          CmdPositionOpen ''EURUSD'' ORDER_TYPE_BUY (1 / 10) 0 0 0 '''']
       (CTrade_new 10000 ''USD'' 100)"



text \<open>The EURUSD ledger after stops have been set on the position, and after a buy limit
  order (ticket 1001) has been placed with its own stops.\<close>

definition ledger_with_stops :: CTrade where
  "ledger_with_stops =
     exec (CmdPositionModify 1000 (109800 / 100000) (110800 / 100000)) ledger_EURUSD"

definition ledger_with_order :: CTrade where
  "ledger_with_order =
     exec (CmdOrderOpen ''EURUSD'' ORDER_TYPE_BUY_LIMIT (1 / 10) (109500 / 100000) 0
             (109000 / 100000) (110500 / 100000) ORDER_TIME_GTC 0 '''')
       ledger_with_stops"

subsection \<open>What the specification says of tickets\<close>

text \<open>
  The tickets that a step from \<open>t\<close> to \<open>t'\<close> has issued, as the ledger shows them: the
  keys of the positions and of the pending orders of \<open>t'\<close> that \<open>t\<close> does not have, and
  the tickets of the deals that \<open>t'\<close> has appended to the deals of \<open>t\<close>.
\<close>

definition new_position_tickets :: "CTrade \<Rightarrow> CTrade \<Rightarrow> u64 list" where
  "new_position_tickets t t' =
     filter (\<lambda>k. k \<notin> fst ` set (ct_positions t)) (map fst (ct_positions t'))"

definition new_order_tickets :: "CTrade \<Rightarrow> CTrade \<Rightarrow> u64 list" where
  "new_order_tickets t t' =
     filter (\<lambda>k. k \<notin> fst ` set (ct_orders t)) (map fst (ct_orders t'))"

definition new_deal_tickets :: "CTrade \<Rightarrow> CTrade \<Rightarrow> u64 list" where
  "new_deal_tickets t t' = map di_ticket (drop (length (ct_deals t)) (ct_deals t'))"

definition issued :: "CTrade \<Rightarrow> CTrade \<Rightarrow> u64 list" where
  "issued t t' = new_position_tickets t t' @ new_order_tickets t t' @ new_deal_tickets t t'"

text \<open>The tickets issued by a sequence of commands, in the order of the commands.\<close>

fun issued_run :: "command list \<Rightarrow> CTrade \<Rightarrow> u64 list" where
  "issued_run [] t = []"
| "issued_run (c # cs) t = issued t (exec c t) @ issued_run cs (exec c t)"

text \<open>The ledger with a pending order, after the position has been closed: position
  1000, order 1001, deal 1002.\<close>

definition ledger_closed :: CTrade where
  "ledger_closed = exec (CmdPositionClose 1000 0) ledger_with_order"

text \<open>
  What a command can do to the tickets, read off the four fields that hold them: it
  issues nothing, or one position ticket, or one order ticket, or the tickets of one or
  two deals; positions and orders that it does not create keep their keys or go.
\<close>

definition ticket_step :: "CTrade \<Rightarrow> CTrade \<Rightarrow> bool" where
  "ticket_step t t' \<longleftrightarrow>
     (let n = ct_next_ticket t;
          kept_positions = (fst ` set (ct_positions t') \<subseteq> fst ` set (ct_positions t));
          kept_orders = (fst ` set (ct_orders t') \<subseteq> fst ` set (ct_orders t))
      in (kept_positions \<and> kept_orders \<and> ct_deals t' = ct_deals t \<and> ct_next_ticket t' = n)
       \<or> (kept_orders \<and> ct_deals t' = ct_deals t \<and> ct_next_ticket t' = n + 1
           \<and> map fst (ct_positions t')
               = (if n \<in> fst ` set (ct_positions t) then map fst (ct_positions t)
                  else map fst (ct_positions t) @ [n]))
       \<or> (kept_positions \<and> ct_deals t' = ct_deals t \<and> ct_next_ticket t' = n + 1
           \<and> map fst (ct_orders t')
               = (if n \<in> fst ` set (ct_orders t) then map fst (ct_orders t)
                  else map fst (ct_orders t) @ [n]))
       \<or> (kept_positions \<and> kept_orders \<and> ct_next_ticket t' = n + 1
           \<and> (\<exists>ds. ct_deals t' = ct_deals t @ ds \<and> map di_ticket ds = [n]))
       \<or> (kept_positions \<and> kept_orders \<and> ct_next_ticket t' = n + 2
           \<and> (\<exists>ds. ct_deals t' = ct_deals t @ ds \<and> map di_ticket ds = [n, n + 1])))"

text \<open>A close: no deal, or one deal with the next ticket.\<close>

definition deal_step :: "CTrade \<Rightarrow> CTrade \<Rightarrow> bool" where
  "deal_step t t' \<longleftrightarrow>
     fst ` set (ct_positions t') \<subseteq> fst ` set (ct_positions t)
     \<and> fst ` set (ct_orders t') \<subseteq> fst ` set (ct_orders t)
     \<and> ((ct_next_ticket t' = ct_next_ticket t \<and> ct_deals t' = ct_deals t)
          \<or> (ct_next_ticket t' = ct_next_ticket t + 1
              \<and> (\<exists>ds. ct_deals t' = ct_deals t @ ds
                        \<and> map di_ticket ds = [ct_next_ticket t])))"

chapter \<open>Properties\<close>

section \<open>Fixed-point division\<close>










section \<open>The global clock\<close>

lemma sle_INT64_MAX: "x \<le>s INT64_MAX"
  unfolding INT64_MAX_def word_sle_eq using sint_lt[of x] by simp

lemma std_min_sle: "t \<le>s std_min a b \<longleftrightarrow> t \<le>s a \<and> t \<le>s b"
  unfolding std_min_def word_sle_eq word_sless_alt by auto

lemma fold_min_excluding:
  "t \<le>s fold (\<lambda>(other_id, other_time) m.
                 if other_id \<noteq> sid then std_min m other_time else m) xs m0
   \<longleftrightarrow> t \<le>s m0 \<and> (\<forall>(oid, ot) \<in> set xs. oid \<noteq> sid \<longrightarrow> t \<le>s ot)"
  by (induction xs arbitrary: m0) (auto simp: std_min_sle split: if_splits)

text \<open>
  Claim C5 as stated fails: with a single tracked symbol 1 at time 5, symbol 2 may
  advance to 10 although 10 exceeds the timestamp of the only other tracked symbol.
\<close>

theorem can_advance_single_other_counterexample:
  "can_advance clock_single 2 10 \<and> \<not> target_within_others clock_single 2 10"
  by (simp add: can_advance_def target_within_others_def clock_single_def update_symbol_def
      GlobalClock_new_def recalculate_global_time_locked_def word_sle_eq)

text \<open>
  Claim C5, amended. \<open>can_advance(id, target)\<close> is true exactly when at most one symbol
  is tracked, or the target is at most the timestamp of every tracked symbol other than
  \<open>id\<close>.
\<close>

theorem can_advance_iff:
  "can_advance c sid target \<longleftrightarrow>
     length (symbol_timestamps c) \<le> 1 \<or> target_within_others c sid target"
  by (simp add: can_advance_def target_within_others_def fold_min_excluding sle_INT64_MAX)

theorem can_advance_iff_witness:
  "\<not> can_advance clock_S4 1 1001000 \<and> can_advance clock_S4 2 999500
   \<and> current_time clock_S4 = 999000"
  using can_advance_iff[of clock_S4 1 1001000] can_advance_iff[of clock_S4 2 999500]
  by (simp add: clock_S4_def update_symbol_def GlobalClock_new_def current_time_def
      recalculate_global_time_locked_def target_within_others_def word_sle_eq
      std_min_def INT64_MAX_def word_sless_alt)

section \<open>The costs engine\<close>

lemma fill_result:
  "fst (fill e side vol trigger_price tick info) =
     \<lparr>executed = True,
      fill_price = (if side = POSITION_TYPE_BUY
                    then trigger_price + fst (slippage_model e side vol tick info (rng e))
                    else trigger_price - fst (slippage_model e side vol tick info (rng e))),
      slippage = fst (slippage_model e side vol tick info (rng e)),
      commission = commission_model e side vol
         (if side = POSITION_TYPE_BUY
          then trigger_price + fst (slippage_model e side vol tick info (rng e))
          else trigger_price - fst (slippage_model e side vol tick info (rng e))) info,
      spread_cost = fst (spread_model e tick info (tick_timestamp_us tick)
         (snd (slippage_model e side vol tick info (rng e))))\<rparr>"
  by (simp add: fill_def Let_def split: prod.splits)

text \<open>
  Claim C2. For a BUY position with \<open>sl > 0\<close> and a tick with \<open>bid \<le> sl\<close>,
  \<open>evaluate_position\<close> executes; the trigger price is \<open>min bid sl\<close>, the slippage is
  what the slippage model returns for the closing (sell) side, and the fill price is the
  trigger price minus that slippage. With a non-negative slippage the fill is at or below
  the stop loss, and when the market gaps through the stop (\<open>bid < sl\<close>) it is the bid
  minus the slippage.
\<close>

theorem evaluate_position_buy_stop_loss:
  assumes "pos_type position = POSITION_TYPE_BUY"
    and "pos_sl position > 0"
    and "tick_bid tick \<le> pos_sl position"
  shows "position_trigger position tick = (True, min (tick_bid tick) (pos_sl position))
    \<and> executed (fst (evaluate_position e position tick info))
    \<and> slippage (fst (evaluate_position e position tick info)) =
        fst (slippage_model e POSITION_TYPE_SELL (pos_volume position) tick info (rng e))
    \<and> fill_price (fst (evaluate_position e position tick info)) =
        min (tick_bid tick) (pos_sl position)
          - slippage (fst (evaluate_position e position tick info))
    \<and> (0 \<le> slippage (fst (evaluate_position e position tick info)) \<longrightarrow>
          fill_price (fst (evaluate_position e position tick info)) \<le> pos_sl position)
    \<and> (tick_bid tick < pos_sl position \<longrightarrow>
          fill_price (fst (evaluate_position e position tick info)) =
            tick_bid tick - slippage (fst (evaluate_position e position tick info)))"
proof -
  have trig: "position_trigger position tick = (True, min (tick_bid tick) (pos_sl position))"
    using assms by (simp add: position_trigger_def)
  have ev: "fst (evaluate_position e position tick info) =
      fst (fill e POSITION_TYPE_SELL (pos_volume position)
             (min (tick_bid tick) (pos_sl position)) tick info)"
    using assms(1) by (simp add: evaluate_position_def trig)
  show ?thesis
    unfolding ev fill_result using trig assms by simp
qed

theorem evaluate_position_buy_stop_loss_witness:
  "executed (fst (evaluate_position engine_S2 position_S2 tick_S2 0))
   \<and> fill_price (fst (evaluate_position engine_S2 position_S2 tick_S2 0)) = 108998
   \<and> slippage (fst (evaluate_position engine_S2 position_S2 tick_S2 0)) = 2
   \<and> fill_price (fst (evaluate_position engine_S2 position_S2 tick_S2 0)) \<le> 109500"
proof -
  have h1: "pos_type position_S2 = POSITION_TYPE_BUY"
    and h2: "pos_sl position_S2 > 0"
    and h3: "tick_bid tick_S2 \<le> pos_sl position_S2"
    and vals: "tick_bid tick_S2 = 109000" "pos_sl position_S2 = 109500"
    by (simp_all add: position_S2_def tick_S2_def)
  have slip: "fst (slippage_model engine_S2 POSITION_TYPE_SELL (pos_volume position_S2)
      tick_S2 0 (rng engine_S2)) = 2"
    by (simp add: engine_S2_def FixedSlippage_def trunc_def)
  show ?thesis
    using evaluate_position_buy_stop_loss[OF h1 h2 h3, of engine_S2 0]
    by (simp add: slip vals)
qed

text \<open>
  Claim C3. The trigger comparisons of \<open>evaluate_order\<close> are inclusive. A BUY\_STOP at
  \<open>p\<close> with \<open>ask = p\<close> triggers at the ask and fills at the ask plus the slippage of
  the buy side; a SELL\_LIMIT at \<open>p\<close> with \<open>bid = p\<close> triggers at the order's price and
  fills at that price minus the slippage of the sell side.
\<close>

theorem evaluate_order_inclusive_triggers:
  "(po_type order = ORDER_TYPE_BUY_STOP \<and> tick_ask tick = po_price order \<longrightarrow>
      order_trigger order tick = (True, tick_ask tick)
      \<and> executed (fst (evaluate_order e order tick info))
      \<and> slippage (fst (evaluate_order e order tick info)) =
          fst (slippage_model e POSITION_TYPE_BUY (po_volume order) tick info (rng e))
      \<and> fill_price (fst (evaluate_order e order tick info)) =
          tick_ask tick + slippage (fst (evaluate_order e order tick info)))
   \<and> (po_type order = ORDER_TYPE_SELL_LIMIT \<and> tick_bid tick = po_price order \<longrightarrow>
      order_trigger order tick = (True, po_price order)
      \<and> executed (fst (evaluate_order e order tick info))
      \<and> slippage (fst (evaluate_order e order tick info)) =
          fst (slippage_model e POSITION_TYPE_SELL (po_volume order) tick info (rng e))
      \<and> fill_price (fst (evaluate_order e order tick info)) =
          po_price order - slippage (fst (evaluate_order e order tick info)))"
  by (simp add: evaluate_order_def order_trigger_def is_buy_def fill_result)

theorem evaluate_order_inclusive_triggers_witness:
  "executed (fst (evaluate_order engine_S2 order_buy_stop tick_S2 0))
   \<and> fill_price (fst (evaluate_order engine_S2 order_buy_stop tick_S2 0)) = 109017
   \<and> executed (fst (evaluate_order engine_S2 order_sell_limit tick_S2 0))
   \<and> fill_price (fst (evaluate_order engine_S2 order_sell_limit tick_S2 0)) = 108998"
proof -
  have slip: "fst (slippage_model engine_S2 side v tick_S2 0 (rng engine_S2)) = 2" for side v
    by (simp add: engine_S2_def FixedSlippage_def trunc_def)
  have pre: "po_type order_buy_stop = ORDER_TYPE_BUY_STOP"
    "po_price order_buy_stop = 109015" "tick_ask tick_S2 = 109015"
    "po_type order_sell_limit = ORDER_TYPE_SELL_LIMIT"
    "po_price order_sell_limit = 109000" "tick_bid tick_S2 = 109000"
    by (simp_all add: order_buy_stop_def order_sell_limit_def tick_S2_def)
  show ?thesis
    using evaluate_order_inclusive_triggers[of order_buy_stop tick_S2 engine_S2 0]
      evaluate_order_inclusive_triggers[of order_sell_limit tick_S2 engine_S2 0]
    by (simp add: slip pre)
qed

section \<open>The currency converter\<close>






















section \<open>The ledger: modifying stops\<close>

lemma stop_loss_SetTakeProfit [simp]: "pi_stop_loss (SetTakeProfit p tp) = pi_stop_loss p"
  by (simp add: SetTakeProfit_def SetTimeUpdate_def Let_def)

lemma take_profit_SetStopLoss [simp]: "pi_take_profit (SetStopLoss p sl) = pi_take_profit p"
  by (simp add: SetStopLoss_def SetTimeUpdate_def Let_def)

lemma stop_loss_SetStopLoss [simp]:
  "pi_stop_loss (SetStopLoss p sl) = to_fixed sl (pi_digits p)"
  by (simp add: SetStopLoss_def SetTimeUpdate_def Let_def)

lemma take_profit_SetTakeProfit [simp]:
  "pi_take_profit (SetTakeProfit p tp) = to_fixed tp (pi_digits p)"
  by (simp add: SetTakeProfit_def SetTimeUpdate_def Let_def)

lemma digits_SetStopLoss [simp]: "pi_digits (SetStopLoss p sl) = pi_digits p"
  by (simp add: SetStopLoss_def SetTimeUpdate_def Let_def)

lemma PositionModify_found:
  assumes "map_of (ct_positions t) ticket = Some pos"
  shows "fst (PositionModify t ticket sl tp) = True"
    and "rs_retcode (ct_last_result (snd (PositionModify t ticket sl tp))) = TRADE_RETCODE_DONE"
    and "map_of (ct_positions (snd (PositionModify t ticket sl tp))) ticket =
           Some ((if tp > 0 then (\<lambda>p. SetTakeProfit p tp) else (\<lambda>p. p))
                   ((if sl > 0 then (\<lambda>p. SetStopLoss p sl) else (\<lambda>p. p)) pos))"
  using assms by (simp_all add: PositionModify_def Let_def update_conv')

lemma PositionModify_missing:
  assumes "map_of (ct_positions t) ticket = None"
  shows "fst (PositionModify t ticket sl tp) = False"
    and "rs_retcode (ct_last_result (snd (PositionModify t ticket sl tp))) = TRADE_RETCODE_INVALID_ORDER"
    and "ct_positions (snd (PositionModify t ticket sl tp)) = ct_positions t"
  using assms by (simp_all add: PositionModify_def)

text \<open>
  Claim C4 as stated fails. In the EURUSD ledger the stops level is 10 points and the bid
  is 1.10000; a stop loss of 1.09999, one point below the bid, is accepted: the call
  returns true with DONE and the stop loss of position 1000 changes from 0 to 109999.
\<close>

theorem PositionModify_inside_stops_level_counterexample:
  "violates_stops_level (the (GetSymbolInfo ledger_EURUSD ''EURUSD'')) POSITION_TYPE_BUY
      (109999 / 100000) 0
   \<and> fst (PositionModify ledger_EURUSD 1000 (109999 / 100000) 0)
   \<and> rs_retcode (ct_last_result (snd (PositionModify ledger_EURUSD 1000 (109999 / 100000) 0)))
       = TRADE_RETCODE_DONE
   \<and> map_option pi_stop_loss (map_of (ct_positions ledger_EURUSD) 1000) = Some 0
   \<and> map_option pi_stop_loss
        (map_of (ct_positions (snd (PositionModify ledger_EURUSD 1000 (109999 / 100000) 0))) 1000)
       = Some 109999"
  by code_simp

text \<open>
  Claim C4, amended. \<open>PositionModify(ticket, sl, tp)\<close> checks no distance. On an
  existing position it returns true with DONE, and the stop loss (take profit) becomes the
  requested level in fixed point when the argument is positive and stays as it is
  otherwise. On an unknown ticket it returns false with INVALID\_ORDER and the positions
  are unchanged.
\<close>

theorem PositionModify_sets_levels_unchecked:
  "(map_of (ct_positions t) ticket = Some pos \<longrightarrow>
      fst (PositionModify t ticket sl tp)
      \<and> rs_retcode (ct_last_result (snd (PositionModify t ticket sl tp))) = TRADE_RETCODE_DONE
      \<and> (\<exists>pos'. map_of (ct_positions (snd (PositionModify t ticket sl tp))) ticket = Some pos'
            \<and> pi_stop_loss pos' = (if sl > 0 then to_fixed sl (pi_digits pos) else pi_stop_loss pos)
            \<and> pi_take_profit pos' =
                (if tp > 0 then to_fixed tp (pi_digits pos) else pi_take_profit pos)))
   \<and> (map_of (ct_positions t) ticket = None \<longrightarrow>
      \<not> fst (PositionModify t ticket sl tp)
      \<and> rs_retcode (ct_last_result (snd (PositionModify t ticket sl tp))) = TRADE_RETCODE_INVALID_ORDER
      \<and> ct_positions (snd (PositionModify t ticket sl tp)) = ct_positions t)"
  by (auto simp: PositionModify_found PositionModify_missing)


theorem PositionModify_sets_levels_unchecked_witness:
  "fst (PositionModify ledger_EURUSD 1000 (109800 / 100000) 0)
   \<and> rs_retcode (ct_last_result (snd (PositionModify ledger_EURUSD 1000 (109800 / 100000) 0)))
       = TRADE_RETCODE_DONE
   \<and> \<not> fst (PositionModify ledger_EURUSD 999999 (109500 / 100000) 0)
   \<and> rs_retcode (ct_last_result (snd (PositionModify ledger_EURUSD 999999 (109500 / 100000) 0)))
       = TRADE_RETCODE_INVALID_ORDER"
proof -
  have h1: "map_of (ct_positions ledger_EURUSD) 1000
              = Some (the (map_of (ct_positions ledger_EURUSD) 1000))"
    and h2: "map_of (ct_positions ledger_EURUSD) 999999 = None"
    by code_simp+
  show ?thesis
    using PositionModify_sets_levels_unchecked[of ledger_EURUSD 1000
        "the (map_of (ct_positions ledger_EURUSD) 1000)" "109800 / 100000" 0]
      PositionModify_sets_levels_unchecked[of ledger_EURUSD 999999
        "the (map_of (ct_positions ledger_EURUSD) 1000)" "109500 / 100000" 0]
      h1 h2
    by simp
qed

lemma OrderModify_found:
  assumes "map_of (ct_orders t) ticket = Some order"
  shows "map_of (ct_orders (snd (OrderModify t ticket price sl tp stop_limit expiration))) ticket =
     Some ((if expiration > 0 then (\<lambda>o'. o'\<lparr>oi_time_expiration := expiration\<rparr>) else (\<lambda>o'. o'))
       ((if stop_limit > 0 then (\<lambda>o'. OrderInfo_SetPriceStopLimit o' stop_limit) else (\<lambda>o'. o'))
         ((if tp > 0 then (\<lambda>o'. OrderInfo_SetTakeProfit o' tp) else (\<lambda>o'. o'))
           ((if sl > 0 then (\<lambda>o'. OrderInfo_SetStopLoss o' sl) else (\<lambda>o'. o'))
             ((if price > 0 then (\<lambda>o'. OrderInfo_SetPriceOpen o' price) else (\<lambda>o'. o')) order)))))"
  using assms by (simp add: OrderModify_def Let_def update_conv')

text \<open>
  Claim C10. On an existing position, \<open>PositionModify(t, 0, tp)\<close> leaves the stop loss
  as it was and \<open>PositionModify(t, sl, 0)\<close> leaves the take profit as it was. On an
  existing order, each argument of \<open>OrderModify\<close> that is zero leaves its field
  (price, stop loss, take profit, stop limit, expiration) as it was. So no level is
  cleared by passing 0.
\<close>

theorem modify_with_zero_keeps_level:
  "(map_of (ct_positions t) ticket = Some pos \<longrightarrow>
      map_option pi_stop_loss (map_of (ct_positions (snd (PositionModify t ticket 0 tp))) ticket)
        = Some (pi_stop_loss pos)
      \<and> map_option pi_take_profit (map_of (ct_positions (snd (PositionModify t ticket sl 0))) ticket)
        = Some (pi_take_profit pos))
   \<and> (map_of (ct_orders t) oticket = Some order \<longrightarrow>
      (\<exists>order'.
          map_of (ct_orders (snd (OrderModify t oticket price osl otp stop_limit expiration))) oticket
            = Some order'
          \<and> (price = 0 \<longrightarrow> oi_price_open order' = oi_price_open order)
          \<and> (osl = 0 \<longrightarrow> oi_stop_loss order' = oi_stop_loss order)
          \<and> (otp = 0 \<longrightarrow> oi_take_profit order' = oi_take_profit order)
          \<and> (stop_limit = 0 \<longrightarrow> oi_price_stoplimit order' = oi_price_stoplimit order)
          \<and> (expiration = 0 \<longrightarrow> oi_time_expiration order' = oi_time_expiration order)))"
  by (auto simp: PositionModify_found OrderModify_found OrderInfo_SetPriceOpen_def
      OrderInfo_SetStopLoss_def OrderInfo_SetTakeProfit_def OrderInfo_SetPriceStopLimit_def)

theorem modify_with_zero_keeps_level_witness:
  "map_option pi_stop_loss (map_of (ct_positions ledger_with_order) 1000) = Some 109800
   \<and> map_option pi_stop_loss
        (map_of (ct_positions (snd (PositionModify ledger_with_order 1000 0 (110900 / 100000)))) 1000)
       = Some 109800
   \<and> map_option pi_take_profit
        (map_of (ct_positions (snd (PositionModify ledger_with_order 1000 (109700 / 100000) 0))) 1000)
       = Some 110800
   \<and> map_option oi_stop_loss
        (map_of (ct_orders (snd (OrderModify ledger_with_order 1001 (109400 / 100000) 0 0 0 0))) 1001)
       = Some 109000"
proof -
  let ?p = "the (map_of (ct_positions ledger_with_order) 1000)"
  let ?o = "the (map_of (ct_orders ledger_with_order) 1001)"
  have h: "map_of (ct_positions ledger_with_order) 1000 = Some ?p"
    "map_of (ct_orders ledger_with_order) 1001 = Some ?o"
    "pi_stop_loss ?p = 109800" "pi_take_profit ?p = 110800" "oi_stop_loss ?o = 109000"
    by code_simp+
  show ?thesis
    using modify_with_zero_keeps_level[of ledger_with_order 1000 ?p "110900 / 100000"
        "109700 / 100000" 1001 ?o "109400 / 100000" 0 0 0 0] h
    by auto
qed

section \<open>The ledger: equity\<close>


























subsection \<open>The internal operations\<close>






subsection \<open>The public commands\<close>






















section \<open>The ledger: tickets\<close>

subsection \<open>The counter below its wrap\<close>

lemma ticket_succ:
  "unat n + 2 < 2 ^ 64 \<Longrightarrow> unat (n + 1) = unat n + 1 \<and> unat (n + 2) = unat n + 2"
  for n :: u64
  by (simp add: unat_word_ariths)

lemma UpdateEquity_tickets:
  "ct_next_ticket (UpdateEquity t) = ct_next_ticket t"
  "ct_deals (UpdateEquity t) = ct_deals t"
  "ct_orders (UpdateEquity t) = ct_orders t"
  "ct_positions (UpdateEquity t) = ct_positions t"
  by (simp_all add: UpdateEquity_def Let_def)

subsection \<open>Steps that keep the ticket fields\<close>

lemma ticket_step_refl: "ticket_step t t"
  by (simp add: ticket_step_def)

lemma ticket_step_frames:
  "ticket_step t (t'\<lparr>ct_last_result := r1\<rparr>) = ticket_step t t'"
  "ticket_step t (t'\<lparr>ct_last_request := r2\<rparr>) = ticket_step t t'"
  "ticket_step t (t'\<lparr>ct_last_check := r3\<rparr>) = ticket_step t t'"
  "ticket_step t (t'\<lparr>ct_account := r4\<rparr>) = ticket_step t t'"
  "ticket_step t (t'\<lparr>ct_symbols := r5\<rparr>) = ticket_step t t'"
  "ticket_step t (t'\<lparr>ct_symbol_name_to_id := r6\<rparr>) = ticket_step t t'"
  "ticket_step t (t'\<lparr>ct_current_time_us := r7\<rparr>) = ticket_step t t'"
  "ticket_step t (t'\<lparr>ct_magic_number := r8\<rparr>) = ticket_step t t'"
  "ticket_step t (t'\<lparr>ct_deviation := r9\<rparr>) = ticket_step t t'"
  "ticket_step t (t'\<lparr>ct_type_filling := r10\<rparr>) = ticket_step t t'"
  "ticket_step t (t'\<lparr>ct_history_orders := r11\<rparr>) = ticket_step t t'"
  "ticket_step t (UpdateEquity t') = ticket_step t t'"
  by (simp_all add: ticket_step_def UpdateEquity_tickets)

lemma ticket_step_source_frames:
  "ticket_step (t\<lparr>ct_last_result := r1\<rparr>) t' = ticket_step t t'"
  "ticket_step (t\<lparr>ct_last_request := r2\<rparr>) t' = ticket_step t t'"
  "ticket_step (t\<lparr>ct_last_check := r3\<rparr>) t' = ticket_step t t'"
  by (simp_all add: ticket_step_def)

lemma ticket_step_kept:
  "fst ` set ps \<subseteq> fst ` set (ct_positions t) \<Longrightarrow>
     ticket_step t (t\<lparr>ct_positions := ps\<rparr>)"
  "fst ` set os \<subseteq> fst ` set (ct_orders t) \<Longrightarrow>
     ticket_step t (t\<lparr>ct_orders := os\<rparr>)"
  by (simp_all add: ticket_step_def)

lemma map_of_key: "map_of al k = Some v \<Longrightarrow> k \<in> fst ` set al"
  by (auto dest: map_of_SomeD intro: rev_image_eqI)

lemma update_present_keys:
  "map_of al k = Some v \<Longrightarrow> fst ` set (AList.update k v' al) = fst ` set al"
  by (auto simp: dom_update dest: map_of_key)

lemma pair_key: "(k, v) \<in> set al \<Longrightarrow> k \<in> fst ` set al"
  by force

lemma delete_keys_set: "fst ` set (AList.delete k al) = fst ` set al - {k}"
  using delete_keys [of k al] by (metis set_map set_removeAll)

subsection \<open>The three places that issue a ticket\<close>

lemma ticket_step_InternalPositionOpen:
  "ticket_step t (snd (InternalPositionOpen t symbol type volume price sl tp comment))"
  unfolding InternalPositionOpen_def
  by (simp only: Let_def snd_conv ticket_step_frames split: option.split)
     (simp add: ticket_step_def update_keys)

lemma ticket_step_InternalOrderPlace:
  "ticket_step t
     (snd (InternalOrderPlace t symbol type volume price stop_limit sl tp type_time
             expiration comment))"
  unfolding InternalOrderPlace_def
  by (simp only: Let_def snd_conv ticket_step_frames split: option.split)
     (simp add: ticket_step_def update_keys)

lemma deal_step_InternalPositionClose:
  "deal_step t (snd (InternalPositionClose t ticket volume price))"
proof (cases "map_of (ct_positions t) ticket")
  case None
  then show ?thesis by (simp add: InternalPositionClose_def deal_step_def)
next
  case pos: (Some pos)
  then have key: "insert ticket (fst ` set (ct_positions t)) = fst ` set (ct_positions t)"
    by (auto dest: map_of_key)
  show ?thesis
  proof (cases "GetSymbolInfo t (pi_symbol pos)")
    case None
    with pos show ?thesis by (simp add: InternalPositionClose_def deal_step_def)
  next
    case (Some info)
    show ?thesis
      unfolding InternalPositionClose_def
      apply (simp only: pos Some option.case Let_def snd_conv)
      apply (simp only: deal_step_def)
      apply (intro conjI disjI2)
      apply (simp_all add: dom_update delete_keys_set key UpdateEquity_tickets)
      done
  qed
qed

lemma ticket_step_none:
  "fst ` set (ct_positions t') \<subseteq> fst ` set (ct_positions t) \<Longrightarrow>
   fst ` set (ct_orders t') \<subseteq> fst ` set (ct_orders t) \<Longrightarrow>
   ct_deals t' = ct_deals t \<Longrightarrow> ct_next_ticket t' = ct_next_ticket t \<Longrightarrow>
     ticket_step t t'"
  unfolding ticket_step_def Let_def by (rule disjI1) simp

lemma ticket_step_one_deal:
  "fst ` set (ct_positions t') \<subseteq> fst ` set (ct_positions t) \<Longrightarrow>
   fst ` set (ct_orders t') \<subseteq> fst ` set (ct_orders t) \<Longrightarrow>
   ct_deals t' = ct_deals t @ ds \<Longrightarrow> map di_ticket ds = [ct_next_ticket t] \<Longrightarrow>
   ct_next_ticket t' = ct_next_ticket t + 1 \<Longrightarrow>
     ticket_step t t'"
  unfolding ticket_step_def Let_def
  by (rule disjI2, rule disjI2, rule disjI2, rule disjI1) (intro conjI exI [of _ ds])

lemma ticket_step_two_deals:
  "fst ` set (ct_positions t') \<subseteq> fst ` set (ct_positions t) \<Longrightarrow>
   fst ` set (ct_orders t') \<subseteq> fst ` set (ct_orders t) \<Longrightarrow>
   ct_deals t' = ct_deals t @ ds \<Longrightarrow>
   map di_ticket ds = [ct_next_ticket t, ct_next_ticket t + 1] \<Longrightarrow>
   ct_next_ticket t' = ct_next_ticket t + 2 \<Longrightarrow>
     ticket_step t t'"
  unfolding ticket_step_def Let_def
  by (rule disjI2, rule disjI2, rule disjI2, rule disjI2) (intro conjI exI [of _ ds])

lemma deal_step_cases:
  assumes "deal_step t t'"
  obtains
    (none) "fst ` set (ct_positions t') \<subseteq> fst ` set (ct_positions t)"
      "fst ` set (ct_orders t') \<subseteq> fst ` set (ct_orders t)"
      "ct_deals t' = ct_deals t" "ct_next_ticket t' = ct_next_ticket t"
  | (deal) ds where "fst ` set (ct_positions t') \<subseteq> fst ` set (ct_positions t)"
      "fst ` set (ct_orders t') \<subseteq> fst ` set (ct_orders t)"
      "ct_deals t' = ct_deals t @ ds" "map di_ticket ds = [ct_next_ticket t]"
      "ct_next_ticket t' = ct_next_ticket t + 1"
proof -
  note step = assms [unfolded deal_step_def]
  from step have kept_positions: "fst ` set (ct_positions t') \<subseteq> fst ` set (ct_positions t)"
    by (elim conjE)
  from step have kept_orders: "fst ` set (ct_orders t') \<subseteq> fst ` set (ct_orders t)"
    by (elim conjE)
  from step have
    "(ct_next_ticket t' = ct_next_ticket t \<and> ct_deals t' = ct_deals t)
     \<or> (ct_next_ticket t' = ct_next_ticket t + 1
         \<and> (\<exists>ds. ct_deals t' = ct_deals t @ ds \<and> map di_ticket ds = [ct_next_ticket t]))"
    by (elim conjE)
  then show thesis
  proof (elim disjE conjE exE)
    assume "ct_next_ticket t' = ct_next_ticket t" "ct_deals t' = ct_deals t"
    with kept_positions kept_orders show thesis by (intro none)
  next
    fix ds
    assume "ct_next_ticket t' = ct_next_ticket t + 1" "ct_deals t' = ct_deals t @ ds"
      "map di_ticket ds = [ct_next_ticket t]"
    with kept_positions kept_orders show thesis by (intro deal [of ds])
  qed
qed

lemma deal_step_ticket_step: "deal_step t t' \<Longrightarrow> ticket_step t t'"
  by (erule deal_step_cases) (erule (3) ticket_step_none, erule (4) ticket_step_one_deal)

lemma deal_step_twice:
  assumes first: "deal_step t t'" and second: "deal_step t' t''"
  shows "ticket_step t t''"
proof -
  have two: "n + 1 + 1 = n + 2" for n :: u64 by simp
  from first show ?thesis
  proof (cases rule: deal_step_cases)
    case none
    from second show ?thesis
    proof (cases rule: deal_step_cases)
      case none': none
      show ?thesis
        by (rule ticket_step_none)
           (use none none' in \<open>simp_all only: subset_trans [OF none'(1) none(1)]
              subset_trans [OF none'(2) none(2)]\<close>)
    next
      case deal': (deal ds)
      show ?thesis
        by (rule ticket_step_one_deal [where ds = ds])
           (use none deal' in \<open>simp_all only: subset_trans [OF deal'(1) none(1)]
              subset_trans [OF deal'(2) none(2)]\<close>)
    qed
  next
    case (deal ds)
    from second show ?thesis
    proof (cases rule: deal_step_cases)
      case none': none
      show ?thesis
        by (rule ticket_step_one_deal [where ds = ds])
           (use deal none' in \<open>simp_all only: subset_trans [OF none'(1) deal(1)]
              subset_trans [OF none'(2) deal(2)]\<close>)
    next
      case deal': (deal ds')
      have "map di_ticket (ds @ ds') = [ct_next_ticket t, ct_next_ticket t + 1]"
        using deal(4,5) deal'(4) by simp
      moreover have "ct_deals t'' = ct_deals t @ (ds @ ds')"
        using deal(3) deal'(3) by simp
      moreover have "ct_next_ticket t'' = ct_next_ticket t + 2"
        using deal(5) deal'(5) by (simp only: two)
      ultimately show ?thesis
        using subset_trans [OF deal'(1) deal(1)] subset_trans [OF deal'(2) deal(2)]
        by (intro ticket_step_two_deals [where ds = "ds @ ds'"])
    qed
  qed
qed

lemma deal_step_source_frames:
  "deal_step (t\<lparr>ct_last_request := r2\<rparr>) t' = deal_step t t'"
  by (simp add: deal_step_def)

lemma ticket_step_InternalPositionClose:
  "ticket_step t (snd (InternalPositionClose (t\<lparr>ct_last_request := r\<rparr>) ticket volume price))"
  using deal_step_InternalPositionClose [of "t\<lparr>ct_last_request := r\<rparr>" ticket volume price]
  by (simp add: deal_step_source_frames deal_step_ticket_step)

subsection \<open>The public commands\<close>

lemma ticket_step_ExecuteRequest: "ticket_step t (snd (ExecuteRequest t request))"
proof -
  have opened: "ticket_step t t''"
    if "InternalPositionOpen (t\<lparr>ct_last_result := r\<rparr>) symbol type volume price sl tp comment
          = (k, t'')"
    for r t'' symbol type volume price sl tp comment k
    using ticket_step_InternalPositionOpen
            [of "t\<lparr>ct_last_result := r\<rparr>" symbol type volume price sl tp comment]
    by (simp add: that ticket_step_source_frames)
  have placed: "ticket_step t t''"
    if "InternalOrderPlace (t\<lparr>ct_last_result := r\<rparr>) symbol type volume price stop_limit sl tp
          type_time expiration comment = (k, t'')"
    for r t'' symbol type volume price stop_limit sl tp type_time expiration comment k
    using ticket_step_InternalOrderPlace
            [of "t\<lparr>ct_last_result := r\<rparr>" symbol type volume price stop_limit sl tp type_time
                expiration comment]
    by (simp add: that ticket_step_source_frames)
  show ?thesis
    unfolding ExecuteRequest_def Let_def
    by (auto simp: ticket_step_frames ticket_step_refl
             split: option.splits prod.splits ENUM_TRADE_REQUEST_ACTIONS.splits
             dest: opened placed)
qed

lemma ticket_step_check_and_execute: "ticket_step t (snd (check_and_execute t))"
proof -
  have "ticket_step t (snd (ExecuteRequest (t\<lparr>ct_last_check := c\<rparr>) r))" for c r
    using ticket_step_ExecuteRequest [of "t\<lparr>ct_last_check := c\<rparr>" r]
    by (simp add: ticket_step_source_frames)
  then show ?thesis
    unfolding check_and_execute_def Let_def
    by (auto simp: ticket_step_frames ticket_step_refl split: prod.splits)
qed

lemma ticket_step_PositionOpen:
  "ticket_step t (snd (PositionOpen t symbol order_type volume price sl tp comment))"
  unfolding PositionOpen_def
  using ticket_step_check_and_execute
          [of "t\<lparr>ct_last_request := MqlTradeRequest_new
                 \<lparr>rq_action := TRADE_ACTION_DEAL, rq_symbol := symbol, rq_type := order_type,
                  rq_volume := volume, rq_price := price, rq_sl := sl, rq_tp := tp,
                  rq_deviation := ct_deviation t, rq_type_filling := ct_type_filling t,
                  rq_magic := ucast (ct_magic_number t), rq_comment := comment\<rparr>\<rparr>"]
  by (simp add: ticket_step_source_frames)

lemma ticket_step_OrderOpen:
  "ticket_step t
     (snd (OrderOpen t symbol order_type volume limit_price stop_price sl tp type_time
             expiration comment))"
  unfolding OrderOpen_def
  using ticket_step_check_and_execute
          [of "t\<lparr>ct_last_request := MqlTradeRequest_new
                 \<lparr>rq_action := TRADE_ACTION_PENDING, rq_symbol := symbol,
                  rq_type := order_type, rq_volume := volume, rq_price := limit_price,
                  rq_stoplimit := stop_price, rq_sl := sl, rq_tp := tp,
                  rq_type_filling := ct_type_filling t, rq_type_time := type_time,
                  rq_expiration := expiration, rq_magic := ucast (ct_magic_number t),
                  rq_comment := comment\<rparr>\<rparr>"]
  by (simp add: ticket_step_source_frames)

lemma ticket_step_PositionModify: "ticket_step t (snd (PositionModify t ticket sl tp))"
  by (auto simp: PositionModify_def Let_def ticket_step_def dom_update dest: map_of_key
           split: option.split)

lemma ticket_step_PositionModify_symbol:
  "ticket_step t (snd (PositionModify_symbol t symbol sl tp))"
  by (simp add: PositionModify_symbol_def ticket_step_frames ticket_step_refl
                ticket_step_PositionModify
           split: option.split prod.split)

lemma ticket_step_PositionClose: "ticket_step t (snd (PositionClose t ticket deviation))"
  by (simp add: PositionClose_def Let_def ticket_step_frames ticket_step_refl
                ticket_step_InternalPositionClose
           split: option.split)

lemma ticket_step_PositionClose_symbol:
  "ticket_step t (snd (PositionClose_symbol t symbol deviation))"
  by (simp add: PositionClose_symbol_def Let_def ticket_step_frames ticket_step_refl
                ticket_step_PositionClose)

lemma ticket_step_PositionClosePartial:
  "ticket_step t (snd (PositionClosePartial t ticket volume deviation))"
  by (simp add: PositionClosePartial_def Let_def ticket_step_frames ticket_step_refl
                ticket_step_PositionClose ticket_step_InternalPositionClose
           split: option.split)

lemma ticket_step_PositionClosePartial_symbol:
  "ticket_step t (snd (PositionClosePartial_symbol t symbol volume deviation))"
  by (simp add: PositionClosePartial_symbol_def Let_def ticket_step_frames ticket_step_refl
                ticket_step_PositionClosePartial)

lemma ticket_step_PositionCloseBy: "ticket_step t (snd (PositionCloseBy t ticket ticket_by))"
proof -
  have first: "deal_step t t'"
    if "InternalPositionClose (t\<lparr>ct_last_request := r\<rparr>) k volume price = (ok, t')"
    for r k volume price ok t'
    using deal_step_InternalPositionClose [of "t\<lparr>ct_last_request := r\<rparr>" k volume price]
    by (simp add: that deal_step_source_frames)
  have both: "ticket_step t (snd (InternalPositionClose t' k' volume' price'))"
    if "InternalPositionClose (t\<lparr>ct_last_request := r\<rparr>) k volume price = (ok, t')"
    for r k volume price ok t' k' volume' price'
    using first [OF that] deal_step_InternalPositionClose [of t' k' volume' price']
    by (rule deal_step_twice)
  show ?thesis
    unfolding PositionCloseBy_def Let_def
    by (auto simp: ticket_step_frames ticket_step_refl
             split: option.splits prod.splits
             dest: first [THEN deal_step_ticket_step] intro: both)
qed

lemma ticket_step_OrderModify:
  "ticket_step t (snd (OrderModify t ticket price sl tp stop_limit expiration))"
  by (auto simp: OrderModify_def Let_def ticket_step_def dom_update dest: map_of_key
           split: option.split)

lemma ticket_step_OrderDelete: "ticket_step t (snd (OrderDelete t ticket))"
  by (auto simp: OrderDelete_def Let_def ticket_step_def delete_keys_set
           split: option.split)

lemma ticket_step_UpdatePrices: "ticket_step t (UpdatePrices t symbol b a timestamp)"
  by (auto simp: UpdatePrices_def Let_def ticket_step_def UpdateEquity_tickets
           split: option.split prod.splits if_splits intro: pair_key)

lemma ticket_step_TrailingStopEnable:
  "ticket_step t (snd (TrailingStopEnable t ticket distance step))"
  by (auto simp: TrailingStopEnable_def Let_def ticket_step_def dom_update dest: map_of_key
           split: option.split)

lemma ticket_step_TrailingStopDisable:
  "ticket_step t (snd (TrailingStopDisable t ticket))"
  by (auto simp: TrailingStopDisable_def Let_def ticket_step_def dom_update dest: map_of_key
           split: option.split)

lemma ticket_step_UpdateTrailingStops: "ticket_step t (UpdateTrailingStops t)"
  by (auto simp: UpdateTrailingStops_def ticket_step_def intro: pair_key)

lemma ticket_step_exec: "ticket_step t (exec c t)"
  by (cases c)
     (simp_all add: ticket_step_PositionOpen ticket_step_PositionModify
        ticket_step_PositionModify_symbol ticket_step_PositionClose
        ticket_step_PositionClose_symbol ticket_step_PositionClosePartial
        ticket_step_PositionClosePartial_symbol ticket_step_PositionCloseBy
        ticket_step_OrderOpen ticket_step_OrderModify ticket_step_OrderDelete
        ticket_step_UpdatePrices ticket_step_TrailingStopEnable
        ticket_step_TrailingStopDisable ticket_step_UpdateTrailingStops RegisterSymbol_def
        SetCurrentTime_def Let_def ticket_step_frames ticket_step_refl)

subsection \<open>The tickets a step has issued\<close>

lemma filter_kept: "fst ` set al \<subseteq> A \<Longrightarrow> filter (\<lambda>k. k \<notin> A) (map fst al) = []"
  by (auto simp: filter_empty_conv)

lemma filter_fresh:
  "map fst al' = (if n \<in> fst ` set al then map fst al else map fst al @ [n]) \<Longrightarrow>
     filter (\<lambda>k. k \<notin> fst ` set al) (map fst al') = (if n \<in> fst ` set al then [] else [n])"
  by (simp add: filter_kept)

lemma ticket_step_issued:
  assumes "ticket_step t t'"
  shows "(ct_next_ticket t' = ct_next_ticket t \<and> issued t t' = [])
         \<or> (ct_next_ticket t' = ct_next_ticket t + 1
             \<and> (issued t t' = [] \<or> issued t t' = [ct_next_ticket t]))
         \<or> (ct_next_ticket t' = ct_next_ticket t + 2
             \<and> issued t t' = [ct_next_ticket t, ct_next_ticket t + 1])"
  using assms unfolding ticket_step_def Let_def
proof (elim disjE conjE exE)
  assume "fst ` set (ct_positions t') \<subseteq> fst ` set (ct_positions t)"
    "fst ` set (ct_orders t') \<subseteq> fst ` set (ct_orders t)"
    "ct_deals t' = ct_deals t" "ct_next_ticket t' = ct_next_ticket t"
  then show ?thesis
    by (simp add: issued_def new_position_tickets_def new_order_tickets_def
          new_deal_tickets_def filter_kept)
next
  assume "fst ` set (ct_orders t') \<subseteq> fst ` set (ct_orders t)"
    "ct_deals t' = ct_deals t" "ct_next_ticket t' = ct_next_ticket t + 1"
    "map fst (ct_positions t')
       = (if ct_next_ticket t \<in> fst ` set (ct_positions t) then map fst (ct_positions t)
          else map fst (ct_positions t) @ [ct_next_ticket t])"
  then show ?thesis
    by (simp add: issued_def new_position_tickets_def new_order_tickets_def
          new_deal_tickets_def filter_kept filter_fresh)
next
  assume "fst ` set (ct_positions t') \<subseteq> fst ` set (ct_positions t)"
    "ct_deals t' = ct_deals t" "ct_next_ticket t' = ct_next_ticket t + 1"
    "map fst (ct_orders t')
       = (if ct_next_ticket t \<in> fst ` set (ct_orders t) then map fst (ct_orders t)
          else map fst (ct_orders t) @ [ct_next_ticket t])"
  then show ?thesis
    by (simp add: issued_def new_position_tickets_def new_order_tickets_def
          new_deal_tickets_def filter_kept filter_fresh)
next
  fix ds
  assume "fst ` set (ct_positions t') \<subseteq> fst ` set (ct_positions t)"
    "fst ` set (ct_orders t') \<subseteq> fst ` set (ct_orders t)"
    "ct_next_ticket t' = ct_next_ticket t + 1"
    "ct_deals t' = ct_deals t @ ds" "map di_ticket ds = [ct_next_ticket t]"
  then show ?thesis
    by (simp add: issued_def new_position_tickets_def new_order_tickets_def
          new_deal_tickets_def filter_kept)
next
  fix ds
  assume "fst ` set (ct_positions t') \<subseteq> fst ` set (ct_positions t)"
    "fst ` set (ct_orders t') \<subseteq> fst ` set (ct_orders t)"
    "ct_next_ticket t' = ct_next_ticket t + 2"
    "ct_deals t' = ct_deals t @ ds" "map di_ticket ds = [ct_next_ticket t, ct_next_ticket t + 1]"
  then show ?thesis
    by (simp add: issued_def new_position_tickets_def new_order_tickets_def
          new_deal_tickets_def filter_kept)
qed

text \<open>Below the wrap of the counter, the tickets of a step lie between the old and the
  new value of the counter, in increasing order.\<close>

lemma issued_in_order:
  assumes step: "ticket_step t t'" and room: "unat (ct_next_ticket t) + 2 < 2 ^ 64"
  shows "ct_next_ticket t \<le> ct_next_ticket t'"
    and "unat (ct_next_ticket t') \<le> unat (ct_next_ticket t) + 2"
    and "\<forall>k \<in> set (issued t t'). ct_next_ticket t \<le> k \<and> k < ct_next_ticket t'"
    and "sorted_wrt (<) (issued t t')"
  using ticket_step_issued [OF step] ticket_succ [OF room]
  by (auto simp: word_le_nat_alt word_less_nat_alt)

lemma run_Cons: "run (c # cs) t = run cs (exec c t)"
  by (simp add: run_def)

lemma issued_run_in_order:
  "unat (ct_next_ticket t) + 2 * length cs < 2 ^ 64 \<Longrightarrow>
     ct_next_ticket t \<le> ct_next_ticket (run cs t)
     \<and> unat (ct_next_ticket (run cs t)) \<le> unat (ct_next_ticket t) + 2 * length cs
     \<and> (\<forall>k \<in> set (issued_run cs t). ct_next_ticket t \<le> k \<and> k < ct_next_ticket (run cs t))
     \<and> sorted_wrt (<) (issued_run cs t)"
proof (induction cs arbitrary: t)
  case Nil
  then show ?case by (simp add: run_def)
next
  case (Cons c cs)
  let ?t = "exec c t"
  from Cons.prems have room: "unat (ct_next_ticket t) + 2 < 2 ^ 64" by simp
  note step = issued_in_order [OF ticket_step_exec [of t c] room]
  from Cons.prems step(2) have "unat (ct_next_ticket ?t) + 2 * length cs < 2 ^ 64" by simp
  from Cons.IH [OF this] have
    rest: "ct_next_ticket ?t \<le> ct_next_ticket (run cs ?t)"
      "unat (ct_next_ticket (run cs ?t)) \<le> unat (ct_next_ticket ?t) + 2 * length cs"
      "\<forall>k \<in> set (issued_run cs ?t). ct_next_ticket ?t \<le> k \<and> k < ct_next_ticket (run cs ?t)"
      "sorted_wrt (<) (issued_run cs ?t)"
    by simp_all
  have "ct_next_ticket t \<le> ct_next_ticket (run (c # cs) t)"
    using step(1) rest(1) by (simp add: run_Cons)
  moreover have "unat (ct_next_ticket (run (c # cs) t))
                   \<le> unat (ct_next_ticket t) + 2 * length (c # cs)"
    using step(2) rest(2) by (simp add: run_Cons)
  moreover have "\<forall>k \<in> set (issued_run (c # cs) t).
                   ct_next_ticket t \<le> k \<and> k < ct_next_ticket (run (c # cs) t)"
    using step(1,3) rest(1,3) by (fastforce simp: run_Cons)
  moreover have "sorted_wrt (<) (issued_run (c # cs) t)"
    using step(3,4) rest(3,4) by (fastforce simp: sorted_wrt_append)
  ultimately show ?case by simp
qed

subsection \<open>The issuing places, one by one\<close>

lemma InternalPositionOpen_ticket:
  assumes "GetSymbolInfo t symbol \<noteq> None"
  shows "fst (InternalPositionOpen t symbol type volume price sl tp comment) = ct_next_ticket t"
    and "ct_next_ticket (snd (InternalPositionOpen t symbol type volume price sl tp comment))
           = ct_next_ticket t + 1"
    and "map_option pi_ticket
           (map_of (ct_positions (snd (InternalPositionOpen t symbol type volume price sl tp
                                         comment)))
              (ct_next_ticket t))
           = Some (ct_next_ticket t)"
  using assms unfolding InternalPositionOpen_def
  by (auto simp: Let_def UpdateEquity_tickets update_conv' SetPriceOpen_def
        SetPriceCurrent_def SetStopLoss_def SetTakeProfit_def SetTime_def SetTimeUpdate_def
        RecalculateProfit_def)

lemma InternalOrderPlace_ticket:
  assumes "GetSymbolInfo t symbol \<noteq> None"
  shows "fst (InternalOrderPlace t symbol type volume price stop_limit sl tp type_time
                expiration comment) = ct_next_ticket t"
    and "ct_next_ticket (snd (InternalOrderPlace t symbol type volume price stop_limit sl tp
                                type_time expiration comment))
           = ct_next_ticket t + 1"
    and "map_option oi_ticket
           (map_of (ct_orders (snd (InternalOrderPlace t symbol type volume price stop_limit
                                      sl tp type_time expiration comment)))
              (ct_next_ticket t))
           = Some (ct_next_ticket t)"
  using assms unfolding InternalOrderPlace_def
  by (auto simp: Let_def update_conv' OrderInfo_SetPriceOpen_def OrderInfo_SetStopLoss_def
        OrderInfo_SetTakeProfit_def OrderInfo_SetPriceStopLimit_def
        OrderInfo_SetTimeSetup_def OrderInfo_SetTimeDone_def)

lemma InternalPositionClose_ticket:
  assumes "fst (InternalPositionClose t ticket volume price)"
  shows "map di_ticket (ct_deals (snd (InternalPositionClose t ticket volume price)))
           = map di_ticket (ct_deals t) @ [ct_next_ticket t]"
    and "ct_next_ticket (snd (InternalPositionClose t ticket volume price))
           = ct_next_ticket t + 1"
proof -
  from assms obtain pos info where pos: "map_of (ct_positions t) ticket = Some pos"
    and info: "GetSymbolInfo t (pi_symbol pos) = Some info"
    unfolding InternalPositionClose_def by (auto split: option.splits)
  show "map di_ticket (ct_deals (snd (InternalPositionClose t ticket volume price)))
           = map di_ticket (ct_deals t) @ [ct_next_ticket t]"
    unfolding InternalPositionClose_def
    by (simp only: pos info option.case Let_def snd_conv) (simp add: UpdateEquity_tickets)
  show "ct_next_ticket (snd (InternalPositionClose t ticket volume price))
           = ct_next_ticket t + 1"
    unfolding InternalPositionClose_def
    by (simp only: pos info option.case Let_def snd_conv) (simp add: UpdateEquity_tickets)
qed

text \<open>
  Claim C7. The ticket counter of a new ledger is 1000. Each of the three issuing places
  draws from that one counter: a position open and an order placement on a registered
  symbol return the counter's value as the ticket, store the position or the order under
  it, and increment the counter; a close that succeeds appends one deal whose ticket is
  the counter's value and increments the counter. Below the wrap of the 64-bit counter
  (two tickets of headroom for a command, since a close-by issues two), every public
  command other than \<open>RestoreSnapshot\<close> leaves the counter where it is or above, and
  every ticket that the command has issued - every new position key, new order key and
  appended deal ticket - lies from the old value of the counter up to, but not including,
  the new one, in increasing order. So along a sequence of commands the issued tickets
  of all kinds are strictly increasing, each strictly greater than every ticket issued
  before it, and the counter never decreases.
\<close>

theorem ticket_counter_single_and_increasing:
  "ct_next_ticket (CTrade_new initial_balance currency leverage) = 1000
   \<and> (GetSymbolInfo t symbol \<noteq> None \<longrightarrow>
        fst (InternalPositionOpen t symbol side volume price sl tp comment) = ct_next_ticket t
        \<and> ct_next_ticket (snd (InternalPositionOpen t symbol side volume price sl tp comment))
            = ct_next_ticket t + 1
        \<and> map_option pi_ticket
              (map_of (ct_positions (snd (InternalPositionOpen t symbol side volume price sl
                                            tp comment)))
                 (ct_next_ticket t))
            = Some (ct_next_ticket t))
   \<and> (GetSymbolInfo t symbol \<noteq> None \<longrightarrow>
        fst (InternalOrderPlace t symbol order_type volume price stop_limit sl tp type_time
               expiration comment) = ct_next_ticket t
        \<and> ct_next_ticket (snd (InternalOrderPlace t symbol order_type volume price stop_limit
                                  sl tp type_time expiration comment))
            = ct_next_ticket t + 1
        \<and> map_option oi_ticket
              (map_of (ct_orders (snd (InternalOrderPlace t symbol order_type volume price
                                         stop_limit sl tp type_time expiration comment)))
                 (ct_next_ticket t))
            = Some (ct_next_ticket t))
   \<and> (fst (InternalPositionClose t ticket volume price) \<longrightarrow>
        map di_ticket (ct_deals (snd (InternalPositionClose t ticket volume price)))
          = map di_ticket (ct_deals t) @ [ct_next_ticket t]
        \<and> ct_next_ticket (snd (InternalPositionClose t ticket volume price))
            = ct_next_ticket t + 1)
   \<and> (unat (ct_next_ticket t) + 2 < 2 ^ 64 \<longrightarrow>
        ct_next_ticket t \<le> ct_next_ticket (exec c t)
        \<and> (\<forall>k \<in> set (issued t (exec c t)).
              ct_next_ticket t \<le> k \<and> k < ct_next_ticket (exec c t))
        \<and> sorted_wrt (<) (issued t (exec c t)))
   \<and> (unat (ct_next_ticket t) + 2 * length cs < 2 ^ 64 \<longrightarrow>
        ct_next_ticket t \<le> ct_next_ticket (run cs t)
        \<and> (\<forall>k \<in> set (issued_run cs t).
              ct_next_ticket t \<le> k \<and> k < ct_next_ticket (run cs t))
        \<and> sorted_wrt (<) (issued_run cs t))"
proof (intro conjI impI)
  show "ct_next_ticket (CTrade_new initial_balance currency leverage) = 1000"
    by (simp add: CTrade_new_def)
next
  assume room: "unat (ct_next_ticket t) + 2 < 2 ^ 64"
  note step = issued_in_order [OF ticket_step_exec [of t c] room]
  show "ct_next_ticket t \<le> ct_next_ticket (exec c t)" by (rule step(1))
  show "\<forall>k \<in> set (issued t (exec c t)).
          ct_next_ticket t \<le> k \<and> k < ct_next_ticket (exec c t)" by (rule step(3))
  show "sorted_wrt (<) (issued t (exec c t))" by (rule step(4))
next
  assume "unat (ct_next_ticket t) + 2 * length cs < 2 ^ 64"
  note steps = issued_run_in_order [OF this]
  show "ct_next_ticket t \<le> ct_next_ticket (run cs t)"
    using steps by (elim conjE)
  show "\<forall>k \<in> set (issued_run cs t).
          ct_next_ticket t \<le> k \<and> k < ct_next_ticket (run cs t)"
    using steps by (elim conjE)
  show "sorted_wrt (<) (issued_run cs t)"
    using steps by (elim conjE)
qed (rule InternalPositionOpen_ticket InternalOrderPlace_ticket InternalPositionClose_ticket,
     assumption)+

text \<open>
  On the EURUSD ledger, whose counter is at 1001 after the first position: a second
  position takes 1001, closing the two positions against each other issues the deals
  1002 and 1003, closing a position that is gone issues nothing, and an order then takes
  1004.
\<close>

theorem ticket_counter_single_and_increasing_witness:
  "ct_next_ticket (CTrade_new 10000 ''USD'' 100) = 1000
   \<and> fst (InternalPositionOpen ledger_EURUSD ''EURUSD'' POSITION_TYPE_SELL (1 / 10)
            (11 / 10) 0 0 '''') = 1001
   \<and> fst (InternalOrderPlace ledger_EURUSD ''EURUSD'' ORDER_TYPE_BUY_LIMIT (1 / 10)
            (11 / 10) 0 0 0 ORDER_TIME_GTC 0 '''') = 1001
   \<and> map di_ticket
        (ct_deals (snd (InternalPositionClose ledger_EURUSD 1000 (1 / 10) (11 / 10))))
      = [1001]
   \<and> sorted_wrt (<) (issued ledger_EURUSD (exec (CmdPositionClose 1000 0) ledger_EURUSD))
   \<and> issued_run
        [CmdPositionOpen ''EURUSD'' ORDER_TYPE_SELL (1 / 10) 0 0 0 '''',
         CmdPositionCloseBy 1000 1001,
         CmdPositionClose 1002 0,
         CmdOrderOpen ''EURUSD'' ORDER_TYPE_BUY_LIMIT (1 / 10) (109500 / 100000) 0 0 0
           ORDER_TIME_GTC 0 '''']
        ledger_EURUSD
      = [1001, 1002, 1003, 1004]
   \<and> sorted_wrt (<)
        (issued_run
           [CmdPositionOpen ''EURUSD'' ORDER_TYPE_SELL (1 / 10) 0 0 0 '''',
            CmdPositionCloseBy 1000 1001,
            CmdPositionClose 1002 0,
            CmdOrderOpen ''EURUSD'' ORDER_TYPE_BUY_LIMIT (1 / 10) (109500 / 100000) 0 0 0
              ORDER_TIME_GTC 0 '''']
           ledger_EURUSD)
   \<and> ct_next_ticket ledger_EURUSD
       \<le> ct_next_ticket
           (run [CmdPositionOpen ''EURUSD'' ORDER_TYPE_SELL (1 / 10) 0 0 0 '''',
                 CmdPositionCloseBy 1000 1001,
                 CmdPositionClose 1002 0,
                 CmdOrderOpen ''EURUSD'' ORDER_TYPE_BUY_LIMIT (1 / 10) (109500 / 100000) 0 0
                   0 ORDER_TIME_GTC 0 '''']
              ledger_EURUSD)"
proof -
  let ?cs = "[CmdPositionOpen ''EURUSD'' ORDER_TYPE_SELL (1 / 10) 0 0 0 '''',
              CmdPositionCloseBy 1000 1001,
              CmdPositionClose 1002 0,
              CmdOrderOpen ''EURUSD'' ORDER_TYPE_BUY_LIMIT (1 / 10) (109500 / 100000) 0 0 0
                ORDER_TIME_GTC 0 '''']"
  have counter: "ct_next_ticket ledger_EURUSD = 1001"
    by code_simp
  have registered: "GetSymbolInfo ledger_EURUSD ''EURUSD'' \<noteq> None"
    by code_simp
  have closes: "fst (InternalPositionClose ledger_EURUSD 1000 (1 / 10) (11 / 10))"
    by code_simp
  have no_deals: "ct_deals ledger_EURUSD = []"
    by code_simp
  have tickets: "issued_run ?cs ledger_EURUSD = [1001, 1002, 1003, 1004]"
    by code_simp
  have room: "unat (ct_next_ticket ledger_EURUSD) + 2 < 2 ^ 64"
    "unat (ct_next_ticket ledger_EURUSD) + 2 * length ?cs < 2 ^ 64"
    by (simp_all add: counter)
  from ticket_counter_single_and_increasing
         [where t = ledger_EURUSD and symbol = "''EURUSD''" and side = POSITION_TYPE_SELL
            and volume = "1 / 10" and price = "11 / 10" and sl = 0 and tp = 0
            and comment = "''''" and order_type = ORDER_TYPE_BUY_LIMIT and stop_limit = 0
            and type_time = ORDER_TIME_GTC and expiration = 0 and ticket = 1000
            and c = "CmdPositionClose 1000 0" and cs = ?cs
            and initial_balance = 10000 and currency = "''USD''" and leverage = 100]
       registered closes room tickets
  show ?thesis
    by (simp add: counter no_deals del: issued_run.simps)
qed

end
